theory Spec2Isabelle
  imports Complex_Main
begin

section \<open>Python values, exceptions and attribute namespaces\<close>

text \<open>
  The values that reach \<^verbatim>\<open>dali_utils.py\<close> through the parsed arguments:
  \<^verbatim>\<open>None\<close>, booleans, integers, strings, tuples and lists of integers, and lists of
  floats (the pixel statistics). Floats are read as the real numbers they denote; no
  rounding is modelled, and scalar floats do not occur among the arguments.
\<close>

datatype pyval =
    VNone
  | VBool bool
  | VInt int
  | VStr string
  | VTuple "int list"
  | VList "int list"
  | VFloats "real list"

text \<open>Every exception the modelled code can raise is a value.\<close>

datatype error =
    TypeError
  | ValueError
  | IndexError
  | ZeroDivisionError
  | UnboundLocalError
  | AttributeError string
  | ArgumentError
  | StopIteration

text \<open>
  An \<^verbatim>\<open>argparse.Namespace\<close>: attribute names to values. \<^verbatim>\<open>hasattr(args, n)\<close> and
  \<^verbatim>\<open>n in args\<close> both test membership in the namespace's dictionary; \<^verbatim>\<open>args.n\<close> raises
  AttributeError when the attribute is missing.
\<close>

type_synonym namespace = "string \<rightharpoonup> pyval"

definition hasattr :: "namespace \<Rightarrow> string \<Rightarrow> bool" where
  "hasattr args n = (args n \<noteq> None)"

definition getattr :: "namespace \<Rightarrow> string \<Rightarrow> error + pyval" where
  "getattr args n = (case args n of None \<Rightarrow> Inl (AttributeError n) | Some v \<Rightarrow> Inr v)"

text \<open>Sequencing of computations that may raise: the first exception wins.\<close>

fun bnd :: "error + 'a \<Rightarrow> ('a \<Rightarrow> error + 'b) \<Rightarrow> error + 'b" where
  "bnd (Inl e) f = Inl e"
| "bnd (Inr v) f = f v"

text \<open>
  An integer operand of \<^verbatim>\<open>//\<close>, \<^verbatim>\<open><\<close> and \<^verbatim>\<open><=\<close>: Python's \<^verbatim>\<open>bool\<close> is a subclass of
  \<^verbatim>\<open>int\<close>; every other value of \<^typ>\<open>pyval\<close> raises TypeError against an integer.
\<close>

fun int_operand :: "pyval \<Rightarrow> error + int" where
  "int_operand (VInt i) = Inr i"
| "int_operand (VBool b) = Inr (if b then 1 else 0)"
| "int_operand _ = Inl TypeError"

text \<open>\<^verbatim>\<open>a // b\<close> on integers: floor division, ZeroDivisionError on a zero divisor.\<close>

definition floordiv :: "int \<Rightarrow> int \<Rightarrow> error + int" where
  "floordiv a b = (if b = 0 then Inl ZeroDivisionError else Inr (a div b))"

text \<open>Truthiness, as \<^verbatim>\<open>if v:\<close> and \<^verbatim>\<open>not v\<close> read a value.\<close>

fun truthy :: "pyval \<Rightarrow> bool" where
  "truthy VNone = False"
| "truthy (VBool b) = b"
| "truthy (VInt i) = (i \<noteq> 0)"
| "truthy (VStr s) = (s \<noteq> [])"
| "truthy (VTuple xs) = (xs \<noteq> [])"
| "truthy (VList xs) = (xs \<noteq> [])"
| "truthy (VFloats xs) = (xs \<noteq> [])"

text \<open>\<^verbatim>\<open>v == k\<close> for an integer literal \<open>k\<close>: \<^verbatim>\<open>True == 1\<close> holds in Python.\<close>

fun eq_int :: "pyval \<Rightarrow> int \<Rightarrow> bool" where
  "eq_int (VInt i) k = (i = k)"
| "eq_int (VBool b) k = ((if b then 1 else 0) = k)"
| "eq_int _ k = False"

text \<open>\<^verbatim>\<open>s.split(sep)\<close> for a one-character separator: never an empty list.\<close>

fun split_on :: "char \<Rightarrow> string \<Rightarrow> string list" where
  "split_on c [] = [[]]"
| "split_on c (x # xs) =
     (if x = c then [] # split_on c xs
      else (case split_on c xs of
              [] \<Rightarrow> [[x]]
            | w # ws \<Rightarrow> (x # w) # ws))"

text \<open>\<^verbatim>\<open>p in s\<close> on strings: \<open>p\<close> occurs in \<open>s\<close> as a contiguous substring.\<close>

fun starts_with :: "string \<Rightarrow> string \<Rightarrow> bool" where
  "starts_with [] s = True"
| "starts_with (p # ps) [] = False"
| "starts_with (p # ps) (c # cs) = (p = c \<and> starts_with ps cs)"

fun substring_of :: "string \<Rightarrow> string \<Rightarrow> bool" where
  "substring_of p [] = (p = [])"
| "substring_of p (c # cs) = (starts_with p (c # cs) \<or> substring_of p cs)"

text \<open>
  \<^verbatim>\<open>int(s)\<close> on an ASCII string: surrounding whitespace is stripped, one sign is
  allowed, then decimal digits, single underscores allowed between digits; anything
  else raises ValueError.
\<close>

definition is_space :: "char \<Rightarrow> bool" where
  "is_space c = (of_char c \<in> {9, 10, 11, 12, 13, 28, 29, 30, 31, 32 :: nat})"

definition is_digit :: "char \<Rightarrow> bool" where
  "is_digit c = (48 \<le> (of_char c :: nat) \<and> (of_char c :: nat) \<le> 57)"

definition digit_value :: "char \<Rightarrow> int" where
  "digit_value c = int (of_char c) - 48"

definition strip :: "string \<Rightarrow> string" where
  "strip s = rev (dropWhile is_space (rev (dropWhile is_space s)))"

fun digits_from :: "int \<Rightarrow> bool \<Rightarrow> string \<Rightarrow> int option" where
  "digits_from acc after_underscore [] = (if after_underscore then None else Some acc)"
| "digits_from acc after_underscore (c # cs) =
     (if is_digit c then digits_from (10 * acc + digit_value c) False cs
      else if c = CHR ''_'' \<and> \<not> after_underscore then digits_from acc True cs
      else None)"

definition unsigned_int :: "string \<Rightarrow> int option" where
  "unsigned_int s =
     (case s of
        [] \<Rightarrow> None
      | c # cs \<Rightarrow> if is_digit c then digits_from (digit_value c) False cs else None)"

definition int_of_str :: "string \<Rightarrow> error + int" where
  "int_of_str s =
     (case strip s of
        [] \<Rightarrow> Inl ValueError
      | c # cs \<Rightarrow>
          (case (if c = CHR ''-'' then map_option uminus (unsigned_int cs)
                 else if c = CHR ''+'' then unsigned_int cs
                 else unsigned_int (c # cs)) of
             None \<Rightarrow> Inl ValueError
           | Some i \<Rightarrow> Inr i))"

text \<open>\<^verbatim>\<open>int(v)\<close> on a value.\<close>

fun py_int :: "pyval \<Rightarrow> error + int" where
  "py_int (VInt i) = Inr i"
| "py_int (VBool b) = Inr (if b then 1 else 0)"
| "py_int (VStr s) = int_of_str s"
| "py_int _ = Inl TypeError"

text \<open>Mapping a function that may raise over a list, left to right.\<close>

fun map_raising :: "('a \<Rightarrow> error + 'b) \<Rightarrow> 'a list \<Rightarrow> error + 'b list" where
  "map_raising f [] = Inr []"
| "map_raising f (x # xs) =
     bnd (f x) (\<lambda>y. bnd (map_raising f xs) (\<lambda>ys. Inr (y # ys)))"

text \<open>
  A sequence of integers: \<^verbatim>\<open>len\<close>, iteration, indexing and slicing work on tuples and
  lists (a \<^verbatim>\<open>range\<close> is written as the list of its elements) and raise TypeError on
  \<^verbatim>\<open>None\<close>, booleans and integers. Image shapes and device lists are sequences of
  integers: a string in their place has been parsed before, and a list of floats is
  refused like a value of the wrong type.
\<close>

fun int_seq :: "pyval \<Rightarrow> error + int list" where
  "int_seq (VTuple xs) = Inr xs"
| "int_seq (VList xs) = Inr xs"
| "int_seq _ = Inl TypeError"

text \<open>\<^verbatim>\<open>xs[i]\<close> for a non-negative literal index.\<close>

definition item :: "'a list \<Rightarrow> nat \<Rightarrow> error + 'a" where
  "item xs i = (if i < length xs then Inr (xs ! i) else Inl IndexError)"

text \<open>\<^verbatim>\<open>'horovod' in v\<close>: a substring test on a string, membership on a sequence.\<close>

fun contains_horovod :: "pyval \<Rightarrow> error + bool" where
  "contains_horovod (VStr s) = Inr (substring_of ''horovod'' s)"
| "contains_horovod (VTuple xs) = Inr False"
| "contains_horovod (VList xs) = Inr False"
| "contains_horovod (VFloats xs) = Inr False"
| "contains_horovod _ = Inl TypeError"

text \<open>\<^verbatim>\<open>v + "suffix"\<close>: only a string can be concatenated with a string.\<close>

fun add_str :: "pyval \<Rightarrow> string \<Rightarrow> error + pyval" where
  "add_str (VStr s) t = Inr (VStr (s @ t))"
| "add_str _ t = Inl TypeError"

text \<open>\<^verbatim>\<open>v * k\<close> for an integer \<open>k\<close>: a product on numbers, a repetition on sequences.\<close>

fun mul_int :: "pyval \<Rightarrow> int \<Rightarrow> error + pyval" where
  "mul_int (VInt i) k = Inr (VInt (i * k))"
| "mul_int (VBool b) k = Inr (VInt ((if b then 1 else 0) * k))"
| "mul_int (VStr s) k = Inr (VStr (concat (replicate (nat k) s)))"
| "mul_int (VTuple xs) k = Inr (VTuple (concat (replicate (nat k) xs)))"
| "mul_int (VList xs) k = Inr (VList (concat (replicate (nat k) xs)))"
| "mul_int (VFloats xs) k = Inr (VFloats (concat (replicate (nat k) xs)))"
| "mul_int VNone k = Inl TypeError"

text \<open>\<^verbatim>\<open>xs.index(x)\<close> where \<open>x\<close> is taken from \<open>xs\<close>: the first position holding \<open>x\<close>.\<close>

fun index :: "'a list \<Rightarrow> 'a \<Rightarrow> nat" where
  "index [] x = 0"
| "index (y # ys) x = (if y = x then 0 else Suc (index ys x))"

section \<open>The synthetic data iterator\<close>

datatype ctx = Gpu int | CpuPinned int

text \<open>
  An \<^verbatim>\<open>mx.nd.array\<close>: the array it was built from, its dtype and its device context.
  The contents (and with them the shape) are a value of an arbitrary type \<open>'v\<close>.
\<close>

record 'v ndarray =
  nd_values :: 'v
  nd_dtype :: pyval
  nd_ctx :: ctx

text \<open>\<^verbatim>\<open>DataBatch(data=(d,), label=(l,), pad=0)\<close>.\<close>

record 'v DataBatch =
  batch_data :: "'v ndarray list"
  batch_label :: "'v ndarray list"
  batch_pad :: int

text \<open>
  The two random draws of the constructor, \<^verbatim>\<open>np.random.randint(0, num_classes, [batch_size,])\<close>
  and \<^verbatim>\<open>np.random.uniform(-1, 1, data_shape)\<close>, are taken from the environment: each
  function gives the array drawn for the bounds and shape it is called with.
\<close>

record 'v numpy =
  random_randint :: "int \<Rightarrow> int \<Rightarrow> int list \<Rightarrow> 'v"
  random_uniform :: "int \<Rightarrow> int \<Rightarrow> int list \<Rightarrow> 'v"

record 'v SyntheticDataIter =
  sdi_batch_size :: int
  sdi_cur_sample :: int
  sdi_epoch_size :: pyval
  sdi_dtype :: pyval
  sdi_gpus :: "int list"
  sdi_num_gpus :: int
  sdi_data_shape :: "int list"
  sdi_layout :: pyval
  sdi_data :: "'v ndarray list"
  sdi_label :: "'v ndarray list"

text \<open>
  \<^verbatim>\<open>SyntheticDataIter.__init__\<close>. \<^verbatim>\<open>data_shape[0]\<close> raises IndexError on an empty shape, and
  numpy refuses a negative dimension with ValueError. The label dtype \<^verbatim>\<open>np.float32\<close> is
  written \<open>VStr ''float32''\<close>.
\<close>

definition SyntheticDataIter_init ::
  "'v numpy \<Rightarrow> int \<Rightarrow> int list \<Rightarrow> pyval \<Rightarrow> pyval \<Rightarrow> int list \<Rightarrow> pyval
     \<Rightarrow> error + 'v SyntheticDataIter" where
  "SyntheticDataIter_init np num_classes data_shape epoch_size dtype gpus layout =
     (case data_shape of
        [] \<Rightarrow> Inl IndexError
      | batch_size # _ \<Rightarrow>
          if list_ex (\<lambda>d. d < 0) data_shape then Inl ValueError
          else
            let label = random_randint np 0 num_classes [batch_size];
                data = random_uniform np (-1) 1 data_shape
            in Inr \<lparr> sdi_batch_size = batch_size,
                     sdi_cur_sample = 0,
                     sdi_epoch_size = epoch_size,
                     sdi_dtype = dtype,
                     sdi_gpus = gpus,
                     sdi_num_gpus = int (length gpus),
                     sdi_data_shape = data_shape,
                     sdi_layout = layout,
                     sdi_data = map (\<lambda>i. \<lparr> nd_values = data, nd_dtype = dtype,
                                               nd_ctx = Gpu i \<rparr>) gpus,
                     sdi_label = map (\<lambda>_. \<lparr> nd_values = label,
                                                nd_dtype = VStr ''float32'',
                                                nd_ctx = CpuPinned 0 \<rparr>) gpus \<rparr>)"

text \<open>The list \<^verbatim>\<open>[DataBatch(data=(d,), label=(l,), pad=0) for d, l in zip(data, label)]\<close>.\<close>

definition batches :: "'v SyntheticDataIter \<Rightarrow> 'v DataBatch list" where
  "batches s =
     map (\<lambda>(d, l). \<lparr> batch_data = [d], batch_label = [l], batch_pad = 0 \<rparr>)
       (zip (sdi_data s) (sdi_label s))"

text \<open>
  \<^verbatim>\<open>SyntheticDataIter.next\<close>: the outcome of the call and the iterator after it. The
  comparison \<^verbatim>\<open>cur_sample <= epoch_size\<close> raises TypeError when the epoch size is not
  a number.
\<close>

definition sdi_next ::
  "'v SyntheticDataIter \<Rightarrow> (error + 'v DataBatch list) \<times> 'v SyntheticDataIter" where
  "sdi_next s =
     (case int_operand (sdi_epoch_size s) of
        Inl e \<Rightarrow> (Inl e, s)
      | Inr E \<Rightarrow>
          if sdi_cur_sample s \<le> E
          then (Inr (batches s),
                s\<lparr> sdi_cur_sample := sdi_cur_sample s + sdi_batch_size s * sdi_num_gpus s \<rparr>)
          else (Inl StopIteration, s))"

text \<open>\<^verbatim>\<open>SyntheticDataIter.reset\<close>.\<close>

definition sdi_reset :: "'v SyntheticDataIter \<Rightarrow> 'v SyntheticDataIter" where
  "sdi_reset s = s\<lparr> sdi_cur_sample := 0 \<rparr>"

text \<open>A caller's use of the iterator: a sequence of \<^verbatim>\<open>next()\<close> and \<^verbatim>\<open>reset()\<close> calls.\<close>

datatype call = Next | Reset

fun perform :: "call \<Rightarrow> 'v SyntheticDataIter \<Rightarrow> 'v SyntheticDataIter" where
  "perform Next s = snd (sdi_next s)"
| "perform Reset s = sdi_reset s"

fun perform_all :: "call list \<Rightarrow> 'v SyntheticDataIter \<Rightarrow> 'v SyntheticDataIter" where
  "perform_all [] s = s"
| "perform_all (c # cs) s = perform_all cs (perform c s)"

text \<open>The outcome of the \<open>n\<close>-th call (counted from 1) of \<open>n\<close> consecutive \<^verbatim>\<open>next()\<close> calls.\<close>

definition nth_next :: "nat \<Rightarrow> 'v SyntheticDataIter \<Rightarrow> error + 'v DataBatch list" where
  "nth_next n s = fst (sdi_next (perform_all (replicate (n - 1) Next) s))"

section \<open>The DALI pipelines\<close>

text \<open>The module constants \<^verbatim>\<open>_Reader\<close>, \<^verbatim>\<open>_mean_pixel\<close> and \<^verbatim>\<open>_std_pixel\<close>.\<close>

definition Reader :: string where
  "Reader = ''Reader''"

definition mean_pixel :: "real list" where
  "mean_pixel = map (\<lambda>x. 255 * x) [0.485, 0.456, 0.406]"

definition std_pixel :: "real list" where
  "std_pixel = map (\<lambda>x. 255 * x) [0.229, 0.224, 0.225]"

text \<open>
  \<^verbatim>\<open>get_attribute(args, attr_name, def_value)\<close>. The arguments object may be \<^verbatim>\<open>None\<close>,
  which has none of the attributes asked for. The builtin \<^verbatim>\<open>float\<close> is a parameter
  (\<open>None\<close> where it raises ValueError). The source assigns \<^verbatim>\<open>hasattr(args, attr_name)\<close>
  to \<^verbatim>\<open>attr\<close> a second time, and that is what the model does.
\<close>

definition get_attribute ::
  "(string \<Rightarrow> real option) \<Rightarrow> namespace option \<Rightarrow> string \<Rightarrow> pyval \<Rightarrow> error + pyval" where
  "get_attribute float_of_str args attr_name def_value =
     (case args of
        None \<Rightarrow> Inr def_value
      | Some ns \<Rightarrow>
          if hasattr ns attr_name then
            (let attr = VBool (hasattr ns attr_name) in
             case attr of
               VStr s \<Rightarrow>
                 bnd (map_raising
                        (\<lambda>w. case float_of_str w of None \<Rightarrow> Inl ValueError | Some x \<Rightarrow> Inr x)
                        (split_on CHR '','' s))
                   (\<lambda>xs. Inr (VFloats xs))
             | _ \<Rightarrow> Inr attr)
          else Inr def_value)"

datatype layout = NHWC | NCHW

datatype dali_type = FLOAT16 | FLOAT

text \<open>\<^verbatim>\<open>ImageReader\<close>: the arguments of \<^verbatim>\<open>ops.MXNetReader\<close> and the reader's name.\<close>

record ImageReader =
  input_path :: "pyval list"
  input_index_path :: "pyval list"
  input_random_shuffle :: bool
  input_shard_id :: int
  input_num_shards :: int
  reader_name :: string

definition ImageReader_init ::
  "pyval \<Rightarrow> pyval \<Rightarrow> int \<Rightarrow> int \<Rightarrow> bool \<Rightarrow> pyval \<Rightarrow> ImageReader" where
  "ImageReader_init rec_path idx_path shard_id num_shards random_shuffle name =
     \<lparr> input_path = [rec_path],
       input_index_path = [idx_path],
       input_random_shuffle = random_shuffle,
       input_shard_id = shard_id,
       input_num_shards = num_shards,
       reader_name = (case name of
                        VStr s \<Rightarrow> if s \<noteq> [] then s else Reader
                      | _ \<Rightarrow> Reader) \<rparr>"

text \<open>
  The operators of \<^verbatim>\<open>ImageMethods\<close>, each with the keyword arguments it is built with
  (\<open>None\<close> for an argument left to the operator's default).
\<close>

datatype decode_op =
    ImageDecoderRandomCrop string pyval "real list option" "real list option" "int option"
  | ImageDecoder string pyval

datatype resize_op =
    RandomResizedCrop string "int list"
  | Resize string int int
  | ResizeShorter string pyval

record CropMirrorNormalize =
  cmn_device :: string
  cmn_dtype :: dali_type
  cmn_output_layout :: layout
  cmn_crop :: "int list"
  cmn_pad_output :: bool
  cmn_mean :: pyval
  cmn_std :: pyval

record ImageMethods =
  decode :: decode_op
  resize :: "resize_op option"
  cmnp :: CropMirrorNormalize

text \<open>
  \<^verbatim>\<open>ImageMethods.__init__\<close>. With a truthy \<^verbatim>\<open>random_crop\<close> and no arguments object, the
  source assigns to the name \<^verbatim>\<open>len\<close>, which makes it a local variable of the
  constructor: calling it on a tuple or list raises UnboundLocalError, and for every
  other \<^verbatim>\<open>random_crop\<close> the length is 0, so the defaults are used.
  \<^verbatim>\<open>crop_shape[0]\<close> and \<^verbatim>\<open>crop_shape[1]\<close> raise IndexError on a shorter shape.
\<close>

fun is_tuple_or_list :: "pyval \<Rightarrow> bool" where
  "is_tuple_or_list (VTuple xs) = True"
| "is_tuple_or_list (VList xs) = True"
| "is_tuple_or_list (VFloats xs) = True"
| "is_tuple_or_list _ = False"

definition ImageMethods_init ::
  "(string \<Rightarrow> real option) \<Rightarrow> pyval \<Rightarrow> int list \<Rightarrow> layout \<Rightarrow> bool \<Rightarrow> pyval \<Rightarrow> pyval \<Rightarrow> bool
     \<Rightarrow> namespace option \<Rightarrow> bool option \<Rightarrow> error + ImageMethods" where
  "ImageMethods_init float_of_str nvjpeg_padding crop_shape output_layout pad_output dtype
       random_crop random_resize args dali_cpu =
     (let dali_device = (if dali_cpu = Some True then ''cpu'' else ''gpu'');
          decoder_device = (if dali_cpu = Some True then ''cpu'' else ''mixed'')
      in
      bnd (if truthy random_crop then
             (case args of
                None \<Rightarrow>
                  if is_tuple_or_list random_crop then Inl UnboundLocalError
                  else Inr (ImageDecoderRandomCrop decoder_device nvjpeg_padding
                              (Some [0.75, 1.33]) (Some [0.08, 1.0]) (Some 10))
              | Some ns \<Rightarrow>
                  Inr (ImageDecoderRandomCrop decoder_device nvjpeg_padding None None None))
           else Inr (ImageDecoder decoder_device nvjpeg_padding))
        (\<lambda>dec.
      bnd (if random_resize then Inr (RandomResizedCrop dali_device crop_shape)
           else bnd (item crop_shape 0) (\<lambda>x. bnd (item crop_shape 1) (\<lambda>y.
                  Inr (Resize dali_device x y))))
        (\<lambda>rsz.
      bnd (get_attribute float_of_str args ''rgb_mean'' (VFloats mean_pixel)) (\<lambda>rgb_mean.
      bnd (get_attribute float_of_str args ''rgb_std'' (VFloats std_pixel)) (\<lambda>rgb_std.
      Inr \<lparr> decode = dec,
            resize = Some rsz,
            cmnp = \<lparr> cmn_device = ''gpu'',
                     cmn_dtype = (if dtype = VStr ''float16'' then FLOAT16 else FLOAT),
                     cmn_output_layout = output_layout,
                     cmn_crop = crop_shape,
                     cmn_pad_output = pad_output,
                     cmn_mean = rgb_mean,
                     cmn_std = rgb_std \<rparr> \<rparr>)))))"

text \<open>The arguments of the \<^verbatim>\<open>Pipeline\<close> base class.\<close>

record Pipeline =
  pl_batch_size :: pyval
  pl_num_threads :: pyval
  pl_device_id :: int
  pl_seed :: int
  pl_prefetch_queue_depth :: pyval

record HybridTrainPipe =
  tp_pipeline :: Pipeline
  tp_reader :: ImageReader
  tp_methods :: ImageMethods
  tp_coin :: real

record HybridValPipe =
  vp_pipeline :: Pipeline
  vp_reader :: ImageReader
  vp_methods :: ImageMethods

definition HybridTrainPipe_init ::
  "(string \<Rightarrow> real option) \<Rightarrow> pyval \<Rightarrow> pyval \<Rightarrow> int \<Rightarrow> pyval \<Rightarrow> pyval \<Rightarrow> int \<Rightarrow> int \<Rightarrow> int list
     \<Rightarrow> pyval \<Rightarrow> pyval \<Rightarrow> layout \<Rightarrow> bool \<Rightarrow> pyval \<Rightarrow> namespace option \<Rightarrow> bool option \<Rightarrow> pyval
     \<Rightarrow> pyval \<Rightarrow> bool \<Rightarrow> error + HybridTrainPipe" where
  "HybridTrainPipe_init float_of_str batch_size num_threads device_id rec_path idx_path
       shard_id num_shards crop_shape nvjpeg_padding prefetch_queue output_layout pad_output
       dtype args dali_cpu name random_crop random_resize =
     bnd (ImageMethods_init float_of_str nvjpeg_padding crop_shape output_layout pad_output
            dtype random_crop random_resize args dali_cpu) (\<lambda>methods.
     Inr \<lparr> tp_pipeline = \<lparr> pl_batch_size = batch_size, pl_num_threads = num_threads,
                           pl_device_id = device_id, pl_seed = 12 + device_id,
                           pl_prefetch_queue_depth = prefetch_queue \<rparr>,
           tp_reader = ImageReader_init rec_path idx_path shard_id num_shards True name,
           tp_methods = methods,
           tp_coin = 0.5 \<rparr>)"

text \<open>
  \<^verbatim>\<open>HybridValPipe.__init__\<close>: no random crop is passed on (\<^verbatim>\<open>random_crop=None\<close>), and
  the resize operator is replaced by a shorter-edge resize, or by \<^verbatim>\<open>None\<close> when
  \<^verbatim>\<open>resize_shp\<close> is falsy.
\<close>

definition HybridValPipe_init ::
  "(string \<Rightarrow> real option) \<Rightarrow> pyval \<Rightarrow> pyval \<Rightarrow> int \<Rightarrow> pyval \<Rightarrow> pyval \<Rightarrow> int \<Rightarrow> int \<Rightarrow> int list
     \<Rightarrow> pyval \<Rightarrow> pyval \<Rightarrow> pyval \<Rightarrow> layout \<Rightarrow> bool \<Rightarrow> pyval \<Rightarrow> bool \<Rightarrow> namespace option
     \<Rightarrow> bool option \<Rightarrow> pyval \<Rightarrow> error + HybridValPipe" where
  "HybridValPipe_init float_of_str batch_size num_threads device_id rec_path idx_path
       shard_id num_shards crop_shape nvjpeg_padding prefetch_queue resize_shp output_layout
       pad_output dtype random_resize args dali_cpu name =
     bnd (ImageMethods_init float_of_str nvjpeg_padding crop_shape output_layout pad_output
            dtype VNone random_resize args dali_cpu) (\<lambda>methods.
     Inr \<lparr> vp_pipeline = \<lparr> pl_batch_size = batch_size, pl_num_threads = num_threads,
                           pl_device_id = device_id, pl_seed = 12 + device_id,
                           pl_prefetch_queue_depth = prefetch_queue \<rparr>,
           vp_reader = ImageReader_init rec_path idx_path shard_id num_shards False name,
           vp_methods = methods\<lparr> resize := (if truthy resize_shp
                                              then Some (ResizeShorter ''gpu'' resize_shp)
                                              else None) \<rparr> \<rparr>)"

section \<open>Constructing the pipeline iterators\<close>

text \<open>
  What \<^verbatim>\<open>get_rec_pipeline_iter\<close> asks of its surroundings: numpy's random draws, the
  builtin \<^verbatim>\<open>float\<close>, Horovod's \<^verbatim>\<open>local_rank()\<close>, \<^verbatim>\<open>rank()\<close> and \<^verbatim>\<open>size()\<close>, and the
  epoch size a built pipeline reports for a reader name (a function of the reader the
  pipeline was given). The calls into DALI and MXNet themselves (building operators and
  pipelines, allocating arrays) are taken to succeed.
\<close>

record 'v env =
  env_numpy :: "'v numpy"
  float_of_str :: "string \<Rightarrow> real option"
  hvd_local_rank :: int
  hvd_rank :: int
  hvd_size :: int
  pipe_epoch_size :: "ImageReader \<Rightarrow> string \<Rightarrow> int"

text \<open>The key-value store \<^verbatim>\<open>kv\<close>, when one is passed: its rank and number of workers.\<close>

record kvstore =
  kv_rank :: int
  kv_num_workers :: int

text \<open>\<^verbatim>\<open>DALIClassificationIterator(pipelines, size, reader_name, fill_last_batch)\<close>.\<close>

record 'p DALIClassificationIterator =
  dci_pipelines :: "'p list"
  dci_size :: int
  dci_reader_name :: "string option"
  dci_fill_last_batch :: bool

datatype 'v train_iterator =
    SyntheticIter "'v SyntheticDataIter"
  | DALIIter "HybridTrainPipe DALIClassificationIterator"

text \<open>
  The warning of line 352: the requested number of examples and the reported epoch size
  that its message is formatted from.
\<close>

datatype warning = ExamplesWarning pyval int

text \<open>
  The returned pair \<^verbatim>\<open>(train, val)\<close>, with the warnings emitted and the lines printed to
  stderr on the way. A warning or a line that precedes an exception is not recorded.
\<close>

record 'v iterators =
  train :: "'v train_iterator"
  val :: "HybridValPipe DALIClassificationIterator option"
  warnings :: "warning list"
  stderr :: "string list"

text \<open>Lines 254-256: the target shape, parsed when it is a string.\<close>

definition target_shape_of :: "namespace \<Rightarrow> error + pyval" where
  "target_shape_of args =
     bnd (getattr args ''image_shape'') (\<lambda>target_shape.
       case target_shape of
         VStr s \<Rightarrow> bnd (map_raising int_of_str (split_on CHR '','' s)) (\<lambda>ls. Inr (VTuple ls))
       | _ \<Rightarrow> Inr target_shape)"

text \<open>\<^verbatim>\<open>range(n)\<close>, as the list of its elements.\<close>

definition range_list :: "pyval \<Rightarrow> error + int list" where
  "range_list n = bnd (int_operand n) (\<lambda>k. Inr (map int [0 ..< nat k]))"

text \<open>Lines 258-263: the device list.\<close>

definition gpus_of :: "'v env \<Rightarrow> namespace \<Rightarrow> error + pyval" where
  "gpus_of env args =
     (if hasattr args ''gpus'' then
        bnd (getattr args ''gpus'') (\<lambda>gpus.
          case gpus of
            VStr s \<Rightarrow>
              bnd (map_raising int_of_str (filter (\<lambda>w. w \<noteq> []) (split_on CHR '','' s)))
                (\<lambda>ids. Inr (VList ids))
          | _ \<Rightarrow> Inr gpus)
      else
        bnd (getattr args ''kvstore'') (\<lambda>kvstore.
        bnd (contains_horovod kvstore) (\<lambda>horovod.
          if horovod then Inr (VList [hvd_local_rank env])
          else bnd (getattr args ''n_GPUs'') (\<lambda>n.
               bnd (range_list n) (\<lambda>ids. Inr (VList ids))))))"

text \<open>Line 266: \<^verbatim>\<open>'synthetic' in args and args.synthetic == 1\<close>.\<close>

definition synthetic_mode :: "namespace \<Rightarrow> bool" where
  "synthetic_mode args = (case args ''synthetic'' of None \<Rightarrow> False | Some v \<Rightarrow> eq_int v 1)"

text \<open>\<^verbatim>\<open>target_shape[1:] + target_shape[:1]\<close>.\<close>

fun channels_last :: "pyval \<Rightarrow> error + pyval" where
  "channels_last (VTuple xs) = Inr (VTuple (drop 1 xs @ take 1 xs))"
| "channels_last (VList xs) = Inr (VList (drop 1 xs @ take 1 xs))"
| "channels_last (VFloats xs) = Inr (VFloats (drop 1 xs @ take 1 xs))"
| "channels_last (VStr s) = Inr (VStr (drop 1 s @ take 1 s))"
| "channels_last _ = Inl TypeError"

text \<open>
  Lines 267-271: the synthetic iterator. \<^verbatim>\<open>(batch_size,) + target_shape\<close> needs a tuple.
  Inside the constructor, \<^verbatim>\<open>len(gpus)\<close> needs a sequence and numpy needs integer
  dimensions: both raise TypeError otherwise.
\<close>

definition synthetic_iterators ::
  "'v env \<Rightarrow> namespace \<Rightarrow> pyval \<Rightarrow> pyval \<Rightarrow> pyval \<Rightarrow> error + 'v iterators" where
  "synthetic_iterators env args batch_size target_shape gpus =
     bnd (getattr args ''input_layout'') (\<lambda>input_layout.
     bnd (if input_layout = VStr ''NHWC'' then channels_last target_shape
          else Inr target_shape) (\<lambda>target_shape.
     bnd (case target_shape of VTuple xs \<Rightarrow> Inr xs | _ \<Rightarrow> Inl TypeError) (\<lambda>shape.
     bnd (getattr args ''num_examples'') (\<lambda>num_examples.
     bnd (getattr args ''dtype'') (\<lambda>dtype.
     bnd (getattr args ''input_layout'') (\<lambda>layout.
     bnd (int_seq gpus) (\<lambda>ids.
     bnd (int_operand batch_size) (\<lambda>b.
     bnd (SyntheticDataIter_init (env_numpy env) 1000 (b # shape) num_examples dtype ids layout)
       (\<lambda>it.
     Inr \<lparr> train = SyntheticIter it, val = None, warnings = [],
           stderr = [''Using synthetic data''] \<rparr>)))))))))"

text \<open>Lines 281-286: this worker's rank and the number of workers.\<close>

definition worker_rank :: "'v env \<Rightarrow> namespace \<Rightarrow> kvstore option \<Rightarrow> error + int \<times> int" where
  "worker_rank env args kv =
     bnd (if hasattr args ''kvstore'' then getattr args ''kvstore''
          else getattr args ''kv_store'') (\<lambda>kvstore.
     bnd (contains_horovod kvstore) (\<lambda>horovod.
       if horovod then Inr (hvd_rank env, hvd_size env)
       else Inr (case kv of
                   None \<Rightarrow> (0, 1)
                 | Some k \<Rightarrow> (kv_rank k, kv_num_workers k))))"

text \<open>Lines 290-291 and 356: the reader flag, the reader's name and the iterator's reader.\<close>

definition reade_flg :: "namespace \<Rightarrow> bool" where
  "reade_flg args = (case args ''reader_name'' of Some (VStr s) \<Rightarrow> s \<noteq> [] | _ \<Rightarrow> False)"

definition reader_name_of :: "namespace \<Rightarrow> string" where
  "reader_name_of args =
     (if reade_flg args then (case args ''reader_name'' of Some (VStr s) \<Rightarrow> s | _ \<Rightarrow> Reader)
      else Reader)"

definition reader_of :: "namespace \<Rightarrow> string option" where
  "reader_of args =
     (if reade_flg args then (case args ''reader_name'' of Some (VStr s) \<Rightarrow> Some s | _ \<Rightarrow> None)
      else None)"

text \<open>\<^verbatim>\<open>args.a if hasattr(args, "a") else args.data_dir + suffix\<close>.\<close>

definition path_of :: "namespace \<Rightarrow> string \<Rightarrow> string \<Rightarrow> error + pyval" where
  "path_of args a suffix =
     (if hasattr args a then getattr args a
      else bnd (getattr args ''data_dir'') (\<lambda>d. add_str d suffix))"

text \<open>Line 305: \<^verbatim>\<open>gpus.index(gpu_id) + len(gpus)*rank\<close>.\<close>

definition shard_id_of :: "int list \<Rightarrow> int \<Rightarrow> int \<Rightarrow> int" where
  "shard_id_of gpus gpu_id rank = int (index gpus gpu_id) + int (length gpus) * rank"

text \<open>Lines 300-317: one training pipeline for each device of the list.\<close>

definition trainpipes_of ::
  "'v env \<Rightarrow> namespace \<Rightarrow> bool option \<Rightarrow> pyval \<Rightarrow> bool \<Rightarrow> pyval \<Rightarrow> pyval \<Rightarrow> int list \<Rightarrow> pyval
     \<Rightarrow> pyval \<Rightarrow> int \<Rightarrow> int \<Rightarrow> int list \<Rightarrow> layout \<Rightarrow> bool \<Rightarrow> pyval \<Rightarrow> string
     \<Rightarrow> error + HybridTrainPipe list" where
  "trainpipes_of env args dali_cpu random_crop prop_args batch_size num_threads gpus rec_path
       idx_path rank num_shards target_shape output_layout pad_output nvjpeg_padding name =
     map_raising (\<lambda>gpu_id.
         bnd (getattr args ''dtype'') (\<lambda>dtype.
         bnd (getattr args ''dali_prefetch_queue'') (\<lambda>prefetch_queue.
         HybridTrainPipe_init (float_of_str env) batch_size num_threads gpu_id rec_path idx_path
           (shard_id_of gpus gpu_id rank) num_shards (drop 1 target_shape) nvjpeg_padding
           prefetch_queue output_layout pad_output dtype
           (if prop_args then Some args else None) dali_cpu (VStr name) random_crop
           (\<not> truthy random_crop))))
       gpus"

text \<open>Line 319: whether validation pipelines are built.\<close>

definition val_flg :: "namespace \<Rightarrow> bool" where
  "val_flg args =
     ((case args ''data_val'' of None \<Rightarrow> False | Some v \<Rightarrow> v \<noteq> VNone)
      \<and> \<not> (case args ''no_val'' of None \<Rightarrow> False | Some v \<Rightarrow> truthy v))"

text \<open>Line 323: the separate-validation flag.\<close>

definition separ_val_flag :: "namespace \<Rightarrow> bool" where
  "separ_val_flag args = (hasattr args ''dali_separ_val'' \<or> hasattr args ''separ_val'')"

text \<open>Lines 321-346: one validation pipeline for each device of the list.\<close>

definition valpipes_of ::
  "'v env \<Rightarrow> namespace \<Rightarrow> bool option \<Rightarrow> bool \<Rightarrow> pyval \<Rightarrow> pyval \<Rightarrow> int list \<Rightarrow> int \<Rightarrow> int
     \<Rightarrow> int list \<Rightarrow> layout \<Rightarrow> bool \<Rightarrow> pyval \<Rightarrow> string \<Rightarrow> error + HybridValPipe list" where
  "valpipes_of env args dali_cpu prop_args batch_size num_validation_threads gpus rank
       num_shards target_shape output_layout pad_output nvjpeg_padding name =
     bnd (getattr args ''data_val'') (\<lambda>rec_path.
     bnd (path_of args ''data_val_idx'' ''/val.idx'') (\<lambda>idx_path.
     bnd (if hasattr args ''resize''
          then bnd (getattr args ''resize'') (\<lambda>r. bnd (py_int r) (\<lambda>i. Inr (VInt i)))
          else getattr args ''data_val_resize'') (\<lambda>resize_shp.
     map_raising (\<lambda>gpu_id.
         bnd (getattr args ''dtype'') (\<lambda>dtype.
         bnd (getattr args ''dali_prefetch_queue'') (\<lambda>prefetch_queue.
         HybridValPipe_init (float_of_str env) batch_size num_validation_threads gpu_id
           rec_path idx_path
           (if separ_val_flag args then 0 else shard_id_of gpus gpu_id rank)
           (if separ_val_flag args then 1 else num_shards)
           (drop 1 target_shape) nvjpeg_padding prefetch_queue resize_shp output_layout
           pad_output dtype (dali_cpu = None) (if prop_args then Some args else None)
           dali_cpu (VStr name))))
       gpus)))"

text \<open>Lines 360-364: the validation size of this worker, from the reported epoch size.\<close>

definition val_size_of :: "bool \<Rightarrow> int \<Rightarrow> int \<Rightarrow> int \<Rightarrow> error + int" where
  "val_size_of separ rank nWrk val_epoch =
     (if \<not> separ then
        bnd (floordiv val_epoch nWrk) (\<lambda>val_size.
          Inr (if rank < val_epoch then val_size + 1 else val_size))
      else Inr val_epoch)"

text \<open>
  Lines 273-346: this worker's rank, the number of workers, the device list and the
  pipelines built for it (the validation pipelines only when \<^verbatim>\<open>val_flg\<close> holds).
\<close>

definition dali_pipelines ::
  "'v env \<Rightarrow> namespace \<Rightarrow> kvstore option \<Rightarrow> bool option \<Rightarrow> pyval \<Rightarrow> bool \<Rightarrow> pyval \<Rightarrow> pyval
     \<Rightarrow> pyval
     \<Rightarrow> error + int \<times> int \<times> int list \<times> HybridTrainPipe list \<times> HybridValPipe list option" where
  "dali_pipelines env args kv dali_cpu random_crop prop_args batch_size0 target_shape0 gpus0 =
     bnd (int_seq target_shape0) (\<lambda>target_shape.
     bnd (item target_shape 0) (\<lambda>channels.
     bnd (getattr args ''dali_threads'') (\<lambda>num_threads.
     bnd (if hasattr args ''dali_validation_threads''
          then getattr args ''dali_validation_threads''
          else Inr num_threads) (\<lambda>num_validation_threads.
     bnd (getattr args ''input_layout'') (\<lambda>input_layout.
     bnd (worker_rank env args kv) (\<lambda>(rank, nWrk).
     bnd (int_seq gpus0) (\<lambda>gpus.
     bnd (path_of args ''data_train'' ''/train.rec'') (\<lambda>rec_path.
     bnd (path_of args ''data_train_idx'' ''/train.idx'') (\<lambda>idx_path.
     bnd (if dali_cpu \<noteq> Some True then
            bnd (getattr args ''batch_size'') (\<lambda>b.
            bnd (int_operand b) (\<lambda>b.
            bnd (floordiv b nWrk) (\<lambda>b.
            bnd (floordiv b (int (length gpus))) (\<lambda>b. Inr (VInt b)))))
          else Inr batch_size0) (\<lambda>batch_size.
     bnd (getattr args ''dali_nvjpeg_memory_padding'') (\<lambda>padding.
     bnd (mul_int padding 1024) (\<lambda>padding.
     bnd (mul_int padding 1024) (\<lambda>nvjpeg_padding.
     let pad_output = (channels = 4);
         output_layout = (if input_layout = VStr ''NHWC'' then NHWC else NCHW);
         num_shards = int (length gpus) * nWrk;
         name = reader_name_of args
     in
     bnd (trainpipes_of env args dali_cpu random_crop prop_args batch_size num_threads gpus
            rec_path idx_path rank num_shards target_shape output_layout pad_output
            nvjpeg_padding name) (\<lambda>trainpipes.
     bnd (if val_flg args then
            bnd (valpipes_of env args dali_cpu prop_args batch_size num_validation_threads
                   gpus rank num_shards target_shape output_layout pad_output nvjpeg_padding
                   name) (\<lambda>vs. Inr (Some vs))
          else Inr None) (\<lambda>valpipes.
     Inr (rank, nWrk, gpus, trainpipes, valpipes))))))))))))))))"

text \<open>Lines 355-358: the training size handed to the iterator, \<open>-1\<close> when a reader name is given.\<close>

definition train_size_of :: "string option \<Rightarrow> int \<Rightarrow> int \<Rightarrow> error + int" where
  "train_size_of reader n nWrk = (if reader = None then floordiv n nWrk else Inr (- 1))"

text \<open>
  Lines 347-368: the first pipelines are built (\<^verbatim>\<open>trainpipes[0]\<close> raises IndexError on an
  empty device list), the requested number of examples is compared with the reported
  epoch size, and the iterators are made.
\<close>

definition dali_iterators ::
  "'v env \<Rightarrow> namespace \<Rightarrow> kvstore option \<Rightarrow> bool option \<Rightarrow> pyval \<Rightarrow> bool \<Rightarrow> pyval \<Rightarrow> pyval
     \<Rightarrow> pyval \<Rightarrow> error + 'v iterators" where
  "dali_iterators env args kv dali_cpu random_crop prop_args batch_size0 target_shape0 gpus0 =
     bnd (dali_pipelines env args kv dali_cpu random_crop prop_args batch_size0 target_shape0
            gpus0) (\<lambda>(rank, nWrk, gpus, trainpipes, valpipes).
     bnd (item trainpipes 0) (\<lambda>trainpipe0.
     bnd (case valpipes of
            None \<Rightarrow> Inr None
          | Some vs \<Rightarrow> bnd (item vs 0) (\<lambda>v. Inr (Some v))) (\<lambda>valpipe0.
     bnd (getattr args ''num_examples'') (\<lambda>num_examples.
     bnd (int_operand num_examples) (\<lambda>n.
     let name = reader_name_of args;
         train_epoch = pipe_epoch_size env (tp_reader trainpipe0) name;
         warned = (if n < train_epoch then [ExamplesWarning num_examples train_epoch] else []);
         reader = reader_of args
     in
     bnd (train_size_of reader n nWrk) (\<lambda>train_size.
     bnd (case valpipe0 of
            None \<Rightarrow> Inr (- 1)
          | Some v \<Rightarrow>
              if reader = None
              then val_size_of (separ_val_flag args) rank nWrk
                     (pipe_epoch_size env (vp_reader v) name)
              else Inr (- 1)) (\<lambda>val_size.
     Inr \<lparr> train = DALIIter \<lparr> dci_pipelines = trainpipes, dci_size = train_size,
                              dci_reader_name = reader, dci_fill_last_batch = True \<rparr>,
           val = (case valpipes of
                    None \<Rightarrow> None
                  | Some vs \<Rightarrow> Some \<lparr> dci_pipelines = vs, dci_size = val_size,
                                     dci_reader_name = reader, dci_fill_last_batch = False \<rparr>),
           warnings = warned,
           stderr = [''Using DALI''] \<rparr>)))))))"

text \<open>\<^verbatim>\<open>get_rec_pipeline_iter(args, kv, dali_cpu, random_crop, prop_args)\<close>.\<close>

definition get_rec_pipeline_iter ::
  "'v env \<Rightarrow> namespace \<Rightarrow> kvstore option \<Rightarrow> bool option \<Rightarrow> pyval \<Rightarrow> bool
     \<Rightarrow> error + 'v iterators" where
  "get_rec_pipeline_iter env args kv dali_cpu random_crop prop_args =
     bnd (target_shape_of args) (\<lambda>target_shape.
     bnd (gpus_of env args) (\<lambda>gpus.
     bnd (getattr args ''batch_size'') (\<lambda>batch_size.
       if synthetic_mode args
       then synthetic_iterators env args batch_size target_shape gpus
       else dali_iterators env args kv dali_cpu random_crop prop_args batch_size
              target_shape gpus)))"

section \<open>Merging the command-line arguments\<close>

text \<open>
  An argument definition is a tuple whose first component is the option's name: three
  components (name, action, help) or four (name, type, default, help).
\<close>

datatype arg_type = IntType | StrType

datatype arg =
    Arg3 string string string
  | Arg4 string arg_type pyval string

fun arg_name :: "arg \<Rightarrow> string" where
  "arg_name (Arg3 n a h) = n"
| "arg_name (Arg4 n t d h) = n"

text \<open>
  \<^verbatim>\<open>synonyms_list = [('--separ-val', ('--dali-separ-val'))]\<close>: the second component is a
  string (the parentheses do not make a tuple), so \<^verbatim>\<open>nameB in synonims[1]\<close> is a
  substring test.
\<close>

definition synonyms_list :: "(string \<times> string) list" where
  "synonyms_list = [(''--separ-val'', ''--dali-separ-val'')]"

fun synonym_in :: "(string \<times> string) list \<Rightarrow> string \<Rightarrow> string \<Rightarrow> bool" where
  "synonym_in [] nameA nameB = False"
| "synonym_in (synonims # rest) nameA nameB =
     (if fst synonims = nameA then substring_of nameB (snd synonims)
      else synonym_in rest nameA nameB)"

definition are_synonyms :: "string \<Rightarrow> string \<Rightarrow> bool" where
  "are_synonyms nameA nameB = (if nameA = nameB then True else synonym_in synonyms_list nameA nameB)"

definition default_args :: "arg list" where
  "default_args =
     [Arg3 ''--separ-val'' ''store_true''
        ''each process will perform independent validation on whole val-set'',
      Arg4 ''--dali-threads'' IntType (VInt 3) ''number of threads per GPU for DALI'',
      Arg4 ''--dali-prefetch-queue'' IntType (VInt 3) ''DALI prefetch queue depth'',
      Arg4 ''--dali-nvjpeg-memory-padding'' IntType (VInt 16)
        ''Memory padding value for nvJPEG (in MB)'',
      Arg4 ''--num_examples'' IntType (VInt (- 1))
        ''Number of training examples to be used, \"-1\" - the full training set'',
      Arg4 ''--reader_name'' StrType (VStr []) ''Reader name'']"

text \<open>
  The inner loop of lines 63-66: the first default whose name is a synonym of the
  caller's is removed from the list of defaults (\<^verbatim>\<open>list.remove\<close> takes out the first
  equal element), and the loop is left.
\<close>

fun first_synonym :: "arg list \<Rightarrow> arg \<Rightarrow> arg option" where
  "first_synonym [] a = None"
| "first_synonym (def_arg # rest) a =
     (if are_synonyms (arg_name def_arg) (arg_name a) then Some def_arg
      else first_synonym rest a)"

definition remove_default :: "arg list \<Rightarrow> arg \<Rightarrow> arg list" where
  "remove_default defaults a =
     (case first_synonym defaults a of
        None \<Rightarrow> defaults
      | Some def_arg \<Rightarrow> remove1 def_arg defaults)"

text \<open>The outer loop of line 62, over the caller's arguments in order.\<close>

definition remaining_defaults :: "arg list \<Rightarrow> arg list" where
  "remaining_defaults task_args = foldl remove_default default_args task_args"

text \<open>
  What the function uses of the \<^verbatim>\<open>argparse\<close> parser it is given: the prefix characters
  (\<^verbatim>\<open>'-'\<close> unless the parser was made with others), the conflict handler (\<^verbatim>\<open>'error'\<close>
  or \<^verbatim>\<open>'resolve'\<close>), the parser's registry of actions (for an optional or a positional
  argument and an action name, the exception that building the action raises, if any),
  the option strings registered so far with the parser and all its groups, and the
  argument groups with the arguments of one name that each holds, in order. An action
  with several option strings, as the parser's own help, is present through its option
  strings only.
\<close>

datatype conflict_handler = ConflictError | ConflictResolve

record parser =
  prefix_chars :: string
  conflict_handler :: conflict_handler
  action_error :: "bool \<Rightarrow> string \<Rightarrow> error option"
  option_strings :: "string list"
  argument_groups :: "(string \<times> string \<times> arg list) list"

text \<open>
  An argument whose name starts with a prefix character is an option (an optional
  argument, registered under its option string); any other name is a positional.
\<close>

definition is_option :: "string \<Rightarrow> string \<Rightarrow> bool" where
  "is_option prefix n = (case n of [] \<Rightarrow> False | c # cs \<Rightarrow> c \<in> set prefix)"


text \<open>The action of a three-component definition is looked up in the registry.\<close>

fun arg_action_error :: "parser \<Rightarrow> bool \<Rightarrow> arg \<Rightarrow> error option" where
  "arg_action_error p opt (Arg3 n a h) = action_error p opt a"
| "arg_action_error p opt (Arg4 n t d h) = None"

text \<open>Under \<^verbatim>\<open>'resolve'\<close> the earlier argument registered under an option string is removed.\<close>

definition without_option :: "string \<Rightarrow> arg list \<Rightarrow> arg list" where
  "without_option n acts = filter (\<lambda>x. arg_name x \<noteq> n) acts"

text \<open>
  \<^verbatim>\<open>group.add_argument(arg[0], ...)\<close> of lines 72 and 74, on the parser and the arguments
  the new group holds so far. \<^verbatim>\<open>args[0][0]\<close> raises IndexError on an empty name; an
  option whose inferred destination is empty raises ValueError; the action is built;
  then an option string that is already registered raises ArgumentError under the
  \<^verbatim>\<open>'error'\<close> handler and replaces the earlier argument under \<^verbatim>\<open>'resolve'\<close>. Positionals
  are not checked for conflicts.
\<close>

definition add_argument :: "parser \<Rightarrow> arg list \<Rightarrow> arg \<Rightarrow> error + parser \<times> arg list" where
  "add_argument p acts a =
     (let n = arg_name a in
      if n = [] then Inl IndexError
      else if \<not> is_option (prefix_chars p) n then
        (case arg_action_error p False a of
           Some e \<Rightarrow> Inl e
         | None \<Rightarrow> Inr (p, acts @ [a]))
      else if dropWhile (\<lambda>c. c \<in> set (prefix_chars p)) n = [] then Inl ValueError
      else
        (case arg_action_error p True a of
           Some e \<Rightarrow> Inl e
         | None \<Rightarrow>
             if n \<in> set (option_strings p) then
               (case conflict_handler p of
                  ConflictError \<Rightarrow> Inl ArgumentError
                | ConflictResolve \<Rightarrow>
                    Inr (p\<lparr> argument_groups :=
                              map (\<lambda>(title, description, held).
                                     (title, description, without_option n held))
                                (argument_groups p) \<rparr>,
                         without_option n acts @ [a]))
             else Inr (p\<lparr> option_strings := option_strings p @ [n] \<rparr>, acts @ [a])))"

text \<open>The loops of lines 69-74: every argument is added in turn, until one raises.\<close>

fun add_arguments :: "parser \<Rightarrow> arg list \<Rightarrow> arg list \<Rightarrow> error + parser \<times> arg list" where
  "add_arguments p acts [] = Inr (p, acts)"
| "add_arguments p acts (a # rest) =
     bnd (add_argument p acts a) (\<lambda>(p', acts'). add_arguments p' acts' rest)"

text \<open>
  \<^verbatim>\<open>add_dali_pipeline_args\<close>: the new group \<^verbatim>\<open>DALI\<close> receives the caller's arguments, then
  the defaults that are left, and the parser is returned with it. Iterating over the
  default \<^verbatim>\<open>task_args=None\<close> raises TypeError. The state a raising call leaves the parser
  in is not recorded, and \<^verbatim>\<open>parse_args\<close> (with \<^verbatim>\<open>do_parsing\<close>) is outside the model.
\<close>

definition add_dali_pipeline_args :: "parser \<Rightarrow> arg list option \<Rightarrow> error + parser" where
  "add_dali_pipeline_args parser task_args =
     (case task_args of
        None \<Rightarrow> Inl TypeError
      | Some ts \<Rightarrow>
          bnd (add_arguments parser [] (ts @ remaining_defaults ts)) (\<lambda>(p, acts).
            Inr (p\<lparr> argument_groups :=
                      argument_groups p @ [(''DALI'', ''pipeline and augumentation'', acts)] \<rparr>)))"



section \<open>Reading the results\<close>

text \<open>
  How many further \<^verbatim>\<open>next()\<close> calls return a batch, for an epoch size \<open>E\<close>, a step
  \<open>k\<close> (batch size times number of devices) and a sample counter \<open>c\<close>.
\<close>

definition calls_left :: "int \<Rightarrow> int \<Rightarrow> int \<Rightarrow> nat" where
  "calls_left E k c = (if c \<le> E then nat ((E - c) div k) + 1 else 0)"

text \<open>The pipelines inside the returned iterators (none for a synthetic iterator).\<close>

definition trainpipes_built :: "'v iterators \<Rightarrow> HybridTrainPipe list" where
  "trainpipes_built res =
     (case train res of DALIIter d \<Rightarrow> dci_pipelines d | SyntheticIter s \<Rightarrow> [])"

definition valpipes_built :: "'v iterators \<Rightarrow> HybridValPipe list" where
  "valpipes_built res = (case val res of None \<Rightarrow> [] | Some d \<Rightarrow> dci_pipelines d)"

text \<open>Device, shard id and number of shards of a pipeline.\<close>

definition train_shard :: "HybridTrainPipe \<Rightarrow> int \<times> int \<times> int" where
  "train_shard p =
     (pl_device_id (tp_pipeline p), input_shard_id (tp_reader p), input_num_shards (tp_reader p))"

definition val_shard :: "HybridValPipe \<Rightarrow> int \<times> int \<times> int" where
  "val_shard p =
     (pl_device_id (vp_pipeline p), input_shard_id (vp_reader p), input_num_shards (vp_reader p))"

text \<open>The device list as a list of integers, once \<^verbatim>\<open>len(gpus)\<close> has accepted it.\<close>

definition gpu_list :: "'v env \<Rightarrow> namespace \<Rightarrow> error + int list" where
  "gpu_list env args = bnd (gpus_of env args) int_seq"

text \<open>The same readings on the outcome of a call, \<open>None\<close> when it raised.\<close>

definition built_train_shards :: "error + 'v iterators \<Rightarrow> (int \<times> int \<times> int) list option" where
  "built_train_shards r =
     (case r of Inl e \<Rightarrow> None | Inr res \<Rightarrow> Some (map train_shard (trainpipes_built res)))"

definition built_val_shards :: "error + 'v iterators \<Rightarrow> (int \<times> int \<times> int) list option" where
  "built_val_shards r =
     (case r of Inl e \<Rightarrow> None | Inr res \<Rightarrow> Some (map val_shard (valpipes_built res)))"

definition val_size_built :: "error + 'v iterators \<Rightarrow> int option" where
  "val_size_built r = (case r of Inl e \<Rightarrow> None | Inr res \<Rightarrow> map_option dci_size (val res))"

definition warnings_emitted :: "error + 'v iterators \<Rightarrow> warning list option" where
  "warnings_emitted r = (case r of Inl e \<Rightarrow> None | Inr res \<Rightarrow> Some (warnings res))"

text \<open>The mean and std that each training pipeline's normalisation was built with.\<close>

definition built_pixel_stats :: "error + 'v iterators \<Rightarrow> (pyval \<times> pyval) list option" where
  "built_pixel_stats r =
     (case r of
        Inl e \<Rightarrow> None
      | Inr res \<Rightarrow> Some (map (\<lambda>p. (cmn_mean (cmnp (tp_methods p)), cmn_std (cmnp (tp_methods p))))
                        (trainpipes_built res)))"

definition returned :: "error + 'a \<Rightarrow> bool" where
  "returned r = (case r of Inl e \<Rightarrow> False | Inr v \<Rightarrow> True)"

section \<open>Worked configurations\<close>

text \<open>
  An environment without Horovod workers in which the training record file reports 1000
  examples and every other record file 5; \<^verbatim>\<open>float\<close> is given on the three strings used
  below.
\<close>

definition example_numpy :: "nat numpy" where
  "example_numpy =
     \<lparr> random_randint = (\<lambda>low high shape. 7), random_uniform = (\<lambda>low high shape. 9) \<rparr>"

definition example_env :: "nat env" where
  "example_env =
     \<lparr> env_numpy = example_numpy,
       float_of_str = (\<lambda>s. if s = ''1.0'' then Some 1
                             else if s = ''2.0'' then Some 2
                             else if s = ''3.0'' then Some 3 else None),
       hvd_local_rank = 0, hvd_rank = 0, hvd_size = 1,
       pipe_epoch_size = (\<lambda>r n. if input_path r = [VStr ''train.rec''] then 1000 else 5) \<rparr>"

text \<open>A DALI run on two devices with validation data and no reader name.\<close>

definition dali_attrs :: "(string \<times> pyval) list" where
  "dali_attrs =
     [(''image_shape'', VStr ''3,224,224''), (''gpus'', VStr ''0,1''),
      (''batch_size'', VInt 64), (''dali_threads'', VInt 3),
      (''input_layout'', VStr ''NCHW''), (''kvstore'', VStr ''device''),
      (''data_train'', VStr ''train.rec''), (''data_train_idx'', VStr ''train.idx''),
      (''dali_nvjpeg_memory_padding'', VInt 16), (''dtype'', VStr ''float16''),
      (''dali_prefetch_queue'', VInt 3), (''num_examples'', VInt (- 1)),
      (''data_val'', VStr ''val.rec''), (''data_val_idx'', VStr ''val.idx''),
      (''data_val_resize'', VInt 256), (''reader_name'', VStr [])]"

definition dali_args :: namespace where
  "dali_args = map_of dali_attrs"

text \<open>The second of two workers of a key-value store, and the two workers by rank.\<close>

definition second_of_two :: kvstore where
  "second_of_two = \<lparr> kv_rank = 1, kv_num_workers = 2 \<rparr>"

definition worker_of_two :: "int \<Rightarrow> kvstore" where
  "worker_of_two r = \<lparr> kv_rank = r, kv_num_workers = 2 \<rparr>"

text \<open>Variations of the DALI run: an attribute put in front overrides the one of the list.\<close>

definition repeated_gpu_args :: namespace where
  "repeated_gpu_args = map_of ((''gpus'', VStr ''0,0'') # dali_attrs)"

definition many_examples_args :: namespace where
  "many_examples_args = map_of ((''num_examples'', VInt 2000) # dali_attrs)"

definition few_examples_args :: namespace where
  "few_examples_args = map_of ((''num_examples'', VInt 500) # dali_attrs)"

definition dali_separ_val_args :: namespace where
  "dali_separ_val_args = map_of ((''dali_separ_val'', VBool True) # dali_attrs)"

definition separ_val_false_args :: namespace where
  "separ_val_false_args = map_of ((''separ_val'', VBool False) # dali_attrs)"

definition rgb_args :: namespace where
  "rgb_args = map_of ((''rgb_mean'', VStr ''1.0,2.0,3.0'') # (''rgb_std'', VStr ''3.0,2.0,1.0'')
                      # dali_attrs)"



definition repeated_caller_args :: "arg list" where
  "repeated_caller_args =
     [Arg4 ''--num_examples'' IntType (VInt 100) ''examples'',
      Arg4 ''--num_examples'' IntType (VInt 200) ''examples again'']"


text \<open>
  A parser as \<^verbatim>\<open>argparse.ArgumentParser()\<close> makes it: prefix \<^verbatim>\<open>'-'\<close>, conflicts are errors,
  the option strings \<^verbatim>\<open>-h\<close> and \<^verbatim>\<open>--help\<close> of its help action are registered, and no
  argument of one name has been added. Its registry is given for the action names that
  build for an option and for a positional alike (\<^verbatim>\<open>store\<close>, \<^verbatim>\<open>store_true\<close>, \<^verbatim>\<open>store_false\<close>,
  \<^verbatim>\<open>append\<close>, \<^verbatim>\<open>count\<close>); the worked configurations use no other, and any other name is
  taken as unknown to it.
\<close>

definition default_parser :: parser where
  "default_parser =
     \<lparr> prefix_chars = ''-'',
       conflict_handler = ConflictError,
       action_error = (\<lambda>opt a. if a \<in> set [''store'', ''store_true'', ''store_false'',
                                               ''append'', ''count'']
                                 then None else Some ValueError),
       option_strings = [''-h'', ''--help''],
       argument_groups = [] \<rparr>"

text \<open>The synthetic run: 100 examples, batches of 10, one device.\<close>

definition synthetic_args :: namespace where
  "synthetic_args = map_of
     [(''image_shape'', VStr ''3,224,224''), (''gpus'', VStr ''0''), (''batch_size'', VInt 10),
      (''input_layout'', VStr ''NCHW''), (''kvstore'', VStr ''device''),
      (''dtype'', VStr ''float16''), (''num_examples'', VInt 100), (''synthetic'', VInt 1)]"

text \<open>The iterator that the synthetic run constructs.\<close>

definition example_iter :: "nat SyntheticDataIter" where
  "example_iter =
     \<lparr> sdi_batch_size = 10, sdi_cur_sample = 0, sdi_epoch_size = VInt 100,
       sdi_dtype = VStr ''float16'', sdi_gpus = [0], sdi_num_gpus = 1,
       sdi_data_shape = [10, 3, 224, 224], sdi_layout = VStr ''NCHW'',
       sdi_data = [\<lparr> nd_values = 9, nd_dtype = VStr ''float16'', nd_ctx = Gpu 0 \<rparr>],
       sdi_label = [\<lparr> nd_values = 7, nd_dtype = VStr ''float32'', nd_ctx = CpuPinned 0 \<rparr>] \<rparr>"

section \<open>Sequencing lemmas\<close>

lemma bnd_Inr_iff: "bnd m f = Inr r \<longleftrightarrow> (\<exists>v. m = Inr v \<and> f v = Inr r)"
  by (cases m) simp_all

lemma map_raising_Inr:
  "map_raising f xs = Inr ys \<Longrightarrow> list_all2 (\<lambda>x y. f x = Inr y) xs ys"
  by (induction xs arbitrary: ys) (auto simp: bnd_Inr_iff)

section \<open>What a successful construction went through\<close>

lemma list_all2_map_eq:
  "list_all2 (\<lambda>x y. g y = h x) xs ys \<Longrightarrow> map g ys = map h xs"
  by (induction xs ys rule: list_all2_induct) simp_all

lemma trainpipes_of_shards:
  assumes "trainpipes_of env args dali_cpu random_crop prop_args batch_size num_threads gpus
             rec_path idx_path rank num_shards target_shape output_layout pad_output
             nvjpeg_padding name = Inr ps"
  shows "map train_shard ps = map (\<lambda>g. (g, shard_id_of gpus g rank, num_shards)) gpus"
proof -
  have "list_all2 (\<lambda>g p. train_shard p = (g, shard_id_of gpus g rank, num_shards)) gpus ps"
    using map_raising_Inr [OF assms [unfolded trainpipes_of_def]]
    by (rule list_all2_mono)
       (auto simp: bnd_Inr_iff HybridTrainPipe_init_def ImageReader_init_def train_shard_def)
  then show ?thesis by (rule list_all2_map_eq)
qed

lemma valpipes_of_shards:
  assumes "valpipes_of env args dali_cpu prop_args batch_size num_validation_threads gpus rank
             num_shards target_shape output_layout pad_output nvjpeg_padding name = Inr ps"
  shows "map val_shard ps =
           map (\<lambda>g. (g, if separ_val_flag args then 0 else shard_id_of gpus g rank,
                      if separ_val_flag args then 1 else num_shards)) gpus"
proof -
  from assms obtain rec_path idx_path resize_shp where
    m: "map_raising (\<lambda>gpu_id.
         bnd (getattr args ''dtype'') (\<lambda>dtype.
         bnd (getattr args ''dali_prefetch_queue'') (\<lambda>prefetch_queue.
         HybridValPipe_init (float_of_str env) batch_size num_validation_threads gpu_id
           rec_path idx_path
           (if separ_val_flag args then 0 else shard_id_of gpus gpu_id rank)
           (if separ_val_flag args then 1 else num_shards)
           (drop 1 target_shape) nvjpeg_padding prefetch_queue resize_shp output_layout
           pad_output dtype (dali_cpu = None) (if prop_args then Some args else None)
           dali_cpu (VStr name))))
       gpus = Inr ps"
    unfolding valpipes_of_def bnd_Inr_iff by blast
  have "list_all2 (\<lambda>g p. val_shard p = (g, if separ_val_flag args then 0 else shard_id_of gpus g rank,
                      if separ_val_flag args then 1 else num_shards)) gpus ps"
    using map_raising_Inr [OF m]
    by (rule list_all2_mono)
       (auto simp: bnd_Inr_iff HybridValPipe_init_def ImageReader_init_def val_shard_def)
  then show ?thesis by (rule list_all2_map_eq)
qed

lemma dali_pipelines_Inr:
  assumes "dali_pipelines env args kv dali_cpu random_crop prop_args bs ts gp =
             Inr (rank, nWrk, gpus, tps, vps)"
  shows "int_seq gp = Inr gpus \<and> worker_rank env args kv = Inr (rank, nWrk)
       \<and> map train_shard tps =
           map (\<lambda>g. (g, shard_id_of gpus g rank, int (length gpus) * nWrk)) gpus
       \<and> (if val_flg args
          then \<exists>vs. vps = Some vs
                 \<and> map val_shard vs =
                     map (\<lambda>g. (g, if separ_val_flag args then 0 else shard_id_of gpus g rank,
                                if separ_val_flag args then 1 else int (length gpus) * nWrk)) gpus
          else vps = None)"
  using assms
  apply (simp add: dali_pipelines_def bnd_Inr_iff Let_def split: prod.splits)
  apply (elim exE conjE)
  apply (cases "val_flg args")
   apply (simp_all add: bnd_Inr_iff)
   apply (elim exE conjE)
   apply (drule trainpipes_of_shards)
   apply (drule valpipes_of_shards)
   apply auto[1]
  apply (drule trainpipes_of_shards)
  apply auto[1]
  done


lemma item_0_Inr: "item xs 0 = Inr x \<longleftrightarrow> xs \<noteq> [] \<and> x = hd xs"
  by (cases xs) (auto simp: item_def)

lemma getattr_Inr: "getattr args n = Inr v \<longleftrightarrow> args n = Some v"
  by (simp add: getattr_def split: option.splits)

lemma dali_iterators_Inr:
  assumes "dali_iterators env args kv dali_cpu random_crop prop_args bs ts gp = Inr res"
  shows "\<exists>rank nWrk gpus tps vps num n tsize.
           dali_pipelines env args kv dali_cpu random_crop prop_args bs ts gp =
             Inr (rank, nWrk, gpus, tps, vps)
         \<and> tps \<noteq> []
         \<and> args ''num_examples'' = Some num \<and> int_operand num = Inr n
         \<and> train_size_of (reader_of args) n nWrk = Inr tsize
         \<and> train res = DALIIter \<lparr> dci_pipelines = tps, dci_size = tsize,
                dci_reader_name = reader_of args, dci_fill_last_batch = True \<rparr>
         \<and> warnings res =
               (if n < pipe_epoch_size env (tp_reader (hd tps)) (reader_name_of args)
                then [ExamplesWarning num
                        (pipe_epoch_size env (tp_reader (hd tps)) (reader_name_of args))]
                else [])
         \<and> (case vps of
               None \<Rightarrow> val res = None
             | Some vs \<Rightarrow> vs \<noteq> [] \<and> (\<exists>vsize.
                  val res = Some \<lparr> dci_pipelines = vs, dci_size = vsize,
                                    dci_reader_name = reader_of args,
                                    dci_fill_last_batch = False \<rparr>
                \<and> (if reader_of args = None
                    then val_size_of (separ_val_flag args) rank nWrk
                           (pipe_epoch_size env (vp_reader (hd vs)) (reader_name_of args)) =
                         Inr vsize
                    else vsize = - 1)))"
proof -
  from assms obtain rank nWrk gpus tps vps vp0 num n tsize vsize where
    p: "dali_pipelines env args kv dali_cpu random_crop prop_args bs ts gp =
          Inr (rank, nWrk, gpus, tps, vps)"
    and t0: "tps \<noteq> []"
    and v0: "(case vps of None \<Rightarrow> Inr None
              | Some vs \<Rightarrow> bnd (item vs 0) (\<lambda>v. Inr (Some v))) = Inr vp0"
    and num: "args ''num_examples'' = Some num" and n: "int_operand num = Inr n"
    and ts: "train_size_of (reader_of args) n nWrk = Inr tsize"
    and vs: "(case vp0 of
                None \<Rightarrow> Inr (- 1)
              | Some v \<Rightarrow>
                  if reader_of args = None
                  then val_size_of (separ_val_flag args) rank nWrk
                         (pipe_epoch_size env (vp_reader v) (reader_name_of args))
                  else Inr (- 1)) = Inr vsize"
    and res: "res =
       \<lparr> train = DALIIter \<lparr> dci_pipelines = tps, dci_size = tsize,
                              dci_reader_name = reader_of args, dci_fill_last_batch = True \<rparr>,
         val = (case vps of
                  None \<Rightarrow> None
                | Some vs \<Rightarrow> Some \<lparr> dci_pipelines = vs, dci_size = vsize,
                                    dci_reader_name = reader_of args,
                                    dci_fill_last_batch = False \<rparr>),
         warnings =
           (if n < pipe_epoch_size env (tp_reader (hd tps)) (reader_name_of args)
            then [ExamplesWarning num
                    (pipe_epoch_size env (tp_reader (hd tps)) (reader_name_of args))]
            else []),
         stderr = [''Using DALI''] \<rparr>"
    by (auto simp: dali_iterators_def bnd_Inr_iff Let_def item_0_Inr getattr_Inr
          split: prod.splits)
  have tr: "train res = DALIIter \<lparr> dci_pipelines = tps, dci_size = tsize,
                dci_reader_name = reader_of args, dci_fill_last_batch = True \<rparr>"
    using res by simp
  have w: "warnings res =
               (if n < pipe_epoch_size env (tp_reader (hd tps)) (reader_name_of args)
                then [ExamplesWarning num
                        (pipe_epoch_size env (tp_reader (hd tps)) (reader_name_of args))]
                else [])"
    using res by simp
  have vl: "(case vps of
               None \<Rightarrow> val res = None
             | Some vs \<Rightarrow> vs \<noteq> [] \<and> (\<exists>vsize.
                  val res = Some \<lparr> dci_pipelines = vs, dci_size = vsize,
                                    dci_reader_name = reader_of args,
                                    dci_fill_last_batch = False \<rparr>
                \<and> (if reader_of args = None
                    then val_size_of (separ_val_flag args) rank nWrk
                           (pipe_epoch_size env (vp_reader (hd vs)) (reader_name_of args)) =
                         Inr vsize
                    else vsize = - 1)))"
  proof (cases vps)
    case None
    then show ?thesis using res by simp
  next
    case (Some a)
    then have a: "a \<noteq> []" and vp0: "vp0 = Some (hd a)"
      using v0 by (auto simp: bnd_Inr_iff item_0_Inr)
    have "val res = Some \<lparr> dci_pipelines = a, dci_size = vsize,
                            dci_reader_name = reader_of args, dci_fill_last_batch = False \<rparr>"
      using res Some by simp
    moreover have "if reader_of args = None
                    then val_size_of (separ_val_flag args) rank nWrk
                           (pipe_epoch_size env (vp_reader (hd a)) (reader_name_of args)) =
                         Inr vsize
                    else vsize = - 1"
      using vs vp0 by (auto split: if_splits)
    ultimately show ?thesis using Some a by simp
  qed
  show ?thesis using p t0 num n ts tr w vl by blast
qed

lemma get_rec_pipeline_iter_dali:
  assumes "get_rec_pipeline_iter env args kv dali_cpu random_crop prop_args = Inr res"
    and "\<not> synthetic_mode args"
  shows "\<exists>ts gp bs. gpus_of env args = Inr gp
           \<and> dali_iterators env args kv dali_cpu random_crop prop_args bs ts gp = Inr res"
  using assms by (auto simp: get_rec_pipeline_iter_def bnd_Inr_iff)

lemma get_rec_pipeline_iter_synthetic:
  assumes "get_rec_pipeline_iter env args kv dali_cpu random_crop prop_args = Inr res"
    and "synthetic_mode args"
  shows "val res = None \<and> (\<exists>s. train res = SyntheticIter s)"
  using assms by (auto simp: get_rec_pipeline_iter_def synthetic_iterators_def bnd_Inr_iff)

lemma returnedE: "returned r \<Longrightarrow> \<exists>v. r = Inr v"
  by (cases r) (simp_all add: returned_def)

lemma get_rec_dali_Inr:
  assumes "get_rec_pipeline_iter env args kv dali_cpu random_crop prop_args = Inr res"
    and "\<not> synthetic_mode args"
  shows "\<exists>rank nWrk gpus tps vps num n tsize bs ts gp.
           gpu_list env args = Inr gpus
         \<and> dali_pipelines env args kv dali_cpu random_crop prop_args bs ts gp =
             Inr (rank, nWrk, gpus, tps, vps)
         \<and> worker_rank env args kv = Inr (rank, nWrk)
         \<and> tps \<noteq> []
         \<and> args ''num_examples'' = Some num \<and> int_operand num = Inr n
         \<and> train_size_of (reader_of args) n nWrk = Inr tsize
         \<and> train res = DALIIter \<lparr> dci_pipelines = tps, dci_size = tsize,
                dci_reader_name = reader_of args, dci_fill_last_batch = True \<rparr>
         \<and> warnings res =
               (if n < pipe_epoch_size env (tp_reader (hd tps)) (reader_name_of args)
                then [ExamplesWarning num
                        (pipe_epoch_size env (tp_reader (hd tps)) (reader_name_of args))]
                else [])
         \<and> (case vps of
               None \<Rightarrow> val res = None
             | Some vs \<Rightarrow> vs \<noteq> [] \<and> (\<exists>vsize.
                  val res = Some \<lparr> dci_pipelines = vs, dci_size = vsize,
                                    dci_reader_name = reader_of args,
                                    dci_fill_last_batch = False \<rparr>
                \<and> (if reader_of args = None
                    then val_size_of (separ_val_flag args) rank nWrk
                           (pipe_epoch_size env (vp_reader (hd vs)) (reader_name_of args)) =
                         Inr vsize
                    else vsize = - 1)))"
proof -
  from get_rec_pipeline_iter_dali [OF assms] obtain ts gp bs where
    g: "gpus_of env args = Inr gp"
    and d: "dali_iterators env args kv dali_cpu random_crop prop_args bs ts gp = Inr res"
    by blast
  from dali_iterators_Inr [OF d] obtain rank nWrk gpus tps vps num n tsize where
    p: "dali_pipelines env args kv dali_cpu random_crop prop_args bs ts gp =
             Inr (rank, nWrk, gpus, tps, vps)"
    and rest: "tps \<noteq> []" "args ''num_examples'' = Some num" "int_operand num = Inr n"
      "train_size_of (reader_of args) n nWrk = Inr tsize"
      "train res = DALIIter \<lparr> dci_pipelines = tps, dci_size = tsize,
                dci_reader_name = reader_of args, dci_fill_last_batch = True \<rparr>"
      "warnings res =
               (if n < pipe_epoch_size env (tp_reader (hd tps)) (reader_name_of args)
                then [ExamplesWarning num
                        (pipe_epoch_size env (tp_reader (hd tps)) (reader_name_of args))]
                else [])"
      "(case vps of
               None \<Rightarrow> val res = None
             | Some vs \<Rightarrow> vs \<noteq> [] \<and> (\<exists>vsize.
                  val res = Some \<lparr> dci_pipelines = vs, dci_size = vsize,
                                    dci_reader_name = reader_of args,
                                    dci_fill_last_batch = False \<rparr>
                \<and> (if reader_of args = None
                    then val_size_of (separ_val_flag args) rank nWrk
                           (pipe_epoch_size env (vp_reader (hd vs)) (reader_name_of args)) =
                         Inr vsize
                    else vsize = - 1)))"
    by blast
  from dali_pipelines_Inr [OF p] have "int_seq gp = Inr gpus"
    and w: "worker_rank env args kv = Inr (rank, nWrk)" by simp_all
  then have gl: "gpu_list env args = Inr gpus" using g by (simp add: gpu_list_def)
  show ?thesis using gl p w rest by blast
qed

lemma get_rec_valpipes:
  assumes r: "get_rec_pipeline_iter env args kv dali_cpu random_crop prop_args = Inr res"
    and ns: "\<not> synthetic_mode args"
    and gl: "gpu_list env args = Inr gpus"
    and wr: "worker_rank env args kv = Inr (rank, nWrk)"
  shows "if val_flg args
         then \<exists>vs vsize. vs \<noteq> []
              \<and> val res = Some \<lparr> dci_pipelines = vs, dci_size = vsize,
                                    dci_reader_name = reader_of args,
                                    dci_fill_last_batch = False \<rparr>
              \<and> map val_shard vs =
                     map (\<lambda>g. (g, if separ_val_flag args then 0 else shard_id_of gpus g rank,
                                if separ_val_flag args then 1 else int (length gpus) * nWrk)) gpus
              \<and> (if reader_of args = None
                  then val_size_of (separ_val_flag args) rank nWrk
                         (pipe_epoch_size env (vp_reader (hd vs)) (reader_name_of args)) =
                       Inr vsize
                  else vsize = - 1)
         else val res = None"
proof -
  from get_rec_dali_Inr [OF r ns] obtain rank' nWrk' gpus' tps vps bs ts gp where
    gl': "gpu_list env args = Inr gpus'"
    and p: "dali_pipelines env args kv dali_cpu random_crop prop_args bs ts gp =
             Inr (rank', nWrk', gpus', tps, vps)"
    and w': "worker_rank env args kv = Inr (rank', nWrk')"
    and v: "(case vps of
               None \<Rightarrow> val res = None
             | Some vs \<Rightarrow> vs \<noteq> [] \<and> (\<exists>vsize.
                  val res = Some \<lparr> dci_pipelines = vs, dci_size = vsize,
                                    dci_reader_name = reader_of args,
                                    dci_fill_last_batch = False \<rparr>
                \<and> (if reader_of args = None
                    then val_size_of (separ_val_flag args) rank' nWrk'
                           (pipe_epoch_size env (vp_reader (hd vs)) (reader_name_of args)) =
                         Inr vsize
                    else vsize = - 1)))"
    by blast
  have eq: "gpus' = gpus" "rank' = rank" "nWrk' = nWrk" using gl gl' wr w' by simp_all
  note pf = dali_pipelines_Inr [OF p, unfolded eq]
  show ?thesis
  proof (cases "val_flg args")
    case True
    with pf obtain vs where vs: "vps = Some vs"
      and sh: "map val_shard vs =
                     map (\<lambda>g. (g, if separ_val_flag args then 0 else shard_id_of gpus g rank,
                                if separ_val_flag args then 1 else int (length gpus) * nWrk)) gpus"
      by auto
    from v [unfolded vs option.case eq] obtain vsize where
      ne: "vs \<noteq> []"
      and vr: "val res = Some \<lparr> dci_pipelines = vs, dci_size = vsize,
                                    dci_reader_name = reader_of args,
                                    dci_fill_last_batch = False \<rparr>"
      and sz: "if reader_of args = None
                  then val_size_of (separ_val_flag args) rank nWrk
                         (pipe_epoch_size env (vp_reader (hd vs)) (reader_name_of args)) =
                       Inr vsize
                  else vsize = - 1"
      by blast
    have "\<exists>vs vsize. vs \<noteq> []
              \<and> val res = Some \<lparr> dci_pipelines = vs, dci_size = vsize,
                                    dci_reader_name = reader_of args,
                                    dci_fill_last_batch = False \<rparr>
              \<and> map val_shard vs =
                     map (\<lambda>g. (g, if separ_val_flag args then 0 else shard_id_of gpus g rank,
                                if separ_val_flag args then 1 else int (length gpus) * nWrk)) gpus
              \<and> (if reader_of args = None
                  then val_size_of (separ_val_flag args) rank nWrk
                         (pipe_epoch_size env (vp_reader (hd vs)) (reader_name_of args)) =
                       Inr vsize
                  else vsize = - 1)"
      using ne vr sh sz by blast
    then show ?thesis by (simp only: True if_True)
  next
    case False
    with pf have "vps = None" by simp
    with v have "val res = None" by simp
    then show ?thesis by (simp only: False if_False)
  qed
qed

lemma get_rec_trainpipes:
  assumes r: "get_rec_pipeline_iter env args kv dali_cpu random_crop prop_args = Inr res"
    and ns: "\<not> synthetic_mode args"
    and gl: "gpu_list env args = Inr gpus"
    and wr: "worker_rank env args kv = Inr (rank, nWrk)"
  shows "map train_shard (trainpipes_built res) =
           map (\<lambda>g. (g, shard_id_of gpus g rank, int (length gpus) * nWrk)) gpus"
proof -
  from get_rec_dali_Inr [OF r ns] obtain rank' nWrk' gpus' tps vps tsize bs ts gp where
    gl': "gpu_list env args = Inr gpus'"
    and p: "dali_pipelines env args kv dali_cpu random_crop prop_args bs ts gp =
             Inr (rank', nWrk', gpus', tps, vps)"
    and w': "worker_rank env args kv = Inr (rank', nWrk')"
    and t: "train res = DALIIter \<lparr> dci_pipelines = tps, dci_size = tsize,
                dci_reader_name = reader_of args, dci_fill_last_batch = True \<rparr>"
    by blast
  have eq: "gpus' = gpus" "rank' = rank" "nWrk' = nWrk" using gl gl' wr w' by simp_all
  from dali_pipelines_Inr [OF p, unfolded eq] t show ?thesis
    by (simp add: trainpipes_built_def)
qed

section \<open>The pipelines do not depend on the requested number of examples\<close>

lemma get_attribute_num_examples:
  "n \<noteq> ''num_examples'' \<Longrightarrow>
   get_attribute f (if pa then Some (args(''num_examples'' \<mapsto> v)) else None) n d =
   get_attribute f (if pa then Some args else None) n d"
  by (simp add: get_attribute_def hasattr_def)

lemma ImageMethods_init_num_examples:
  "ImageMethods_init f np cs ol po dt rc rr (if pa then Some (args(''num_examples'' \<mapsto> v)) else None) dc =
   ImageMethods_init f np cs ol po dt rc rr (if pa then Some args else None) dc"
  using get_attribute_num_examples [of "''rgb_mean''" f pa args v]
        get_attribute_num_examples [of "''rgb_std''" f pa args v]
  by (cases pa) (simp_all add: ImageMethods_init_def Let_def)

lemma dali_pipelines_num_examples:
  "dali_pipelines env (args(''num_examples'' \<mapsto> v)) kv dali_cpu rc pa bs ts gp =
   dali_pipelines env args kv dali_cpu rc pa bs ts gp"
  by (simp add: dali_pipelines_def worker_rank_def path_of_def trainpipes_of_def
        valpipes_of_def val_flg_def separ_val_flag_def reader_name_of_def reade_flg_def
        getattr_def hasattr_def HybridTrainPipe_init_def HybridValPipe_init_def
        ImageMethods_init_num_examples cong: if_cong)


lemma flags_num_examples:
  "reader_of (args(''num_examples'' \<mapsto> v)) = reader_of args"
  "reader_name_of (args(''num_examples'' \<mapsto> v)) = reader_name_of args"
  "separ_val_flag (args(''num_examples'' \<mapsto> v)) = separ_val_flag args"
  "synthetic_mode (args(''num_examples'' \<mapsto> v)) = synthetic_mode args"
  "target_shape_of (args(''num_examples'' \<mapsto> v)) = target_shape_of args"
  "gpus_of env (args(''num_examples'' \<mapsto> v)) = gpus_of env args"
  "getattr (args(''num_examples'' \<mapsto> v)) ''batch_size'' = getattr args ''batch_size''"
  by (simp_all add: reader_of_def reader_name_of_def reade_flg_def separ_val_flag_def
        synthetic_mode_def target_shape_of_def gpus_of_def getattr_def hasattr_def
      cong: if_cong)

lemma train_size_of_returns:
  "train_size_of reader n nWrk = Inr t \<Longrightarrow> \<exists>t'. train_size_of reader m nWrk = Inr t'"
  by (auto simp: train_size_of_def floordiv_def split: if_splits)

lemma dali_iterators_num_examples_returns:
  assumes "dali_iterators env args kv dali_cpu random_crop prop_args bs ts gp = Inr res"
  shows "returned (dali_iterators env (args(''num_examples'' \<mapsto> VInt m)) kv dali_cpu random_crop
                     prop_args bs ts gp)"
proof -
  from assms obtain rank nWrk gpus tps vps vp0 num n tsize vsize where
    p: "dali_pipelines env args kv dali_cpu random_crop prop_args bs ts gp =
          Inr (rank, nWrk, gpus, tps, vps)"
    and t0: "tps \<noteq> []"
    and v0: "(case vps of None \<Rightarrow> Inr None
              | Some vs \<Rightarrow> bnd (item vs 0) (\<lambda>v. Inr (Some v))) = Inr vp0"
    and ts: "train_size_of (reader_of args) n nWrk = Inr tsize"
    and vs: "(case vp0 of
                None \<Rightarrow> Inr (- 1)
              | Some v \<Rightarrow>
                  if reader_of args = None
                  then val_size_of (separ_val_flag args) rank nWrk
                         (pipe_epoch_size env (vp_reader v) (reader_name_of args))
                  else Inr (- 1)) = Inr vsize"
    by (auto simp: dali_iterators_def bnd_Inr_iff Let_def item_0_Inr getattr_Inr
          split: prod.splits)
  from train_size_of_returns [OF ts] obtain t' where
    t': "train_size_of (reader_of args) m nWrk = Inr t'" by blast
  have i0: "item tps 0 = Inr (hd tps)" using t0 by (simp add: item_0_Inr)
  show ?thesis
    by (simp add: dali_iterators_def dali_pipelines_num_examples p i0 v0 vs t' flags_num_examples
          getattr_def Let_def returned_def cong: if_cong option.case_cong)
qed

section \<open>Numbering the shards\<close>

lemma index_nth_distinct: "distinct xs \<Longrightarrow> i < length xs \<Longrightarrow> index xs (xs ! i) = i"
proof (induction xs arbitrary: i)
  case Nil
  then show ?case by simp
next
  case (Cons x xs)
  show ?case
  proof (cases i)
    case 0
    then show ?thesis by simp
  next
    case (Suc j)
    then have "xs ! j \<in> set xs" using Cons.prems by simp
    then have "x \<noteq> xs ! j" using Cons.prems by auto
    then show ?thesis using Suc Cons by simp
  qed
qed

lemma shard_numbering_bij:
  "bij_betw (\<lambda>(r, g). g + L * r) ({0 ..< n} \<times> {0 ..< L}) {0 ..< (L::nat) * n}"
proof (rule bij_betw_byWitness [where f' = "\<lambda>s. (s div L, s mod L)"])
  show "\<forall>a\<in>{0 ..< n} \<times> {0 ..< L}. (case (case a of (r, g) \<Rightarrow> g + L * r) of s \<Rightarrow> (s div L, s mod L)) = a"
    by auto
  show "\<forall>s\<in>{0 ..< L * n}. (case (s div L, s mod L) of (r, g) \<Rightarrow> g + L * r) = s"
    by auto
  show "(\<lambda>(r, g). g + L * r) ` ({0 ..< n} \<times> {0 ..< L}) \<subseteq> {0 ..< L * n}"
  proof clarsimp
    fix r g assume "r < n" "g < L"
    then have "g + L * r < L + L * r" by simp
    also have "\<dots> = L * Suc r" by simp
    also have "\<dots> \<le> L * n" using \<open>r < n\<close> by (intro mult_le_mono2) simp
    finally show "g + L * r < L * n" .
  qed
  show "(\<lambda>s. (s div L, s mod L)) ` {0 ..< L * n} \<subseteq> {0 ..< n} \<times> {0 ..< L}"
  proof clarsimp
    fix s assume s: "s < L * n"
    then have "0 < L" by (cases L) simp_all
    then show "s div L < n \<and> s mod L < L" using s by (simp add: less_mult_imp_div_less mult.commute)
  qed
qed

lemma shard_id_bij:
  assumes "distinct gpus"
  shows "bij_betw (\<lambda>(r, g). shard_id_of gpus (gpus ! g) (int r))
           ({0 ..< nat nWrk} \<times> {0 ..< length gpus}) {0 ..< nWrk * int (length gpus)}"
proof -
  let ?L = "length gpus" and ?n = "nat nWrk"
  have b1: "bij_betw (\<lambda>(r, g). g + ?L * r) ({0 ..< ?n} \<times> {0 ..< ?L}) {0 ..< ?L * ?n}"
    by (rule shard_numbering_bij)
  have b2: "bij_betw int {0 ..< ?L * ?n} {0 ..< nWrk * int ?L}"
  proof (cases "0 \<le> nWrk")
    case True
    have "int ` {0 ..< ?L * ?n} = {0 ..< int (?L * ?n)}"
      by (simp add: image_int_atLeastLessThan)
    also have "int (?L * ?n) = nWrk * int ?L" using True by (simp add: mult.commute)
    finally show ?thesis by (simp add: bij_betw_def inj_on_def)
  next
    case False
    then have "nWrk * int ?L \<le> 0" by (simp add: mult_le_0_iff)
    then show ?thesis using False by (simp add: bij_betw_def)
  qed
  have "bij_betw (int \<circ> (\<lambda>(r, g). g + ?L * r)) ({0 ..< ?n} \<times> {0 ..< ?L}) {0 ..< nWrk * int ?L}"
    using b1 b2 by (rule bij_betw_trans)
  moreover have "(int \<circ> (\<lambda>(r, g). g + ?L * r)) p = (\<lambda>(r, g). shard_id_of gpus (gpus ! g) (int r)) p"
    if "p \<in> {0 ..< ?n} \<times> {0 ..< ?L}" for p
    using that assms by (auto simp: shard_id_of_def index_nth_distinct)
  ultimately show ?thesis by (simp cong: bij_betw_cong)
qed

section \<open>Properties of the synthetic data iterator\<close>

lemma perform_keeps_tensors:
  "sdi_data (perform c s) = sdi_data s \<and> sdi_label (perform c s) = sdi_label s"
  by (cases c) (simp_all add: sdi_next_def sdi_reset_def split: sum.splits)

lemma perform_all_keeps_tensors:
  "sdi_data (perform_all cs s) = sdi_data s \<and> sdi_label (perform_all cs s) = sdi_label s"
  by (induction cs arbitrary: s) (simp_all add: perform_keeps_tensors)

lemma perform_changes_only_cur_sample:
  "\<exists>n. perform c s = s\<lparr> sdi_cur_sample := n \<rparr>"
proof (cases c)
  case Next
  show ?thesis
  proof (cases "int_operand (sdi_epoch_size s)")
    case (Inl e)
    have "perform Next s = s\<lparr> sdi_cur_sample := sdi_cur_sample s \<rparr>"
      using Inl by (simp add: sdi_next_def)
    then show ?thesis using Next by blast
  next
    case (Inr E)
    show ?thesis
    proof (cases "sdi_cur_sample s \<le> E")
      case True
      then show ?thesis using Next Inr by (auto simp: sdi_next_def)
    next
      case False
      have "perform Next s = s\<lparr> sdi_cur_sample := sdi_cur_sample s \<rparr>"
        using Inr False by (simp add: sdi_next_def)
      then show ?thesis using Next by blast
    qed
  qed
next
  case Reset
  then show ?thesis by (auto simp: sdi_reset_def)
qed

lemma perform_all_changes_only_cur_sample:
  "\<exists>n. perform_all cs s = s\<lparr> sdi_cur_sample := n \<rparr>"
proof (induction cs arbitrary: s)
  case Nil
  have "perform_all [] s = s\<lparr> sdi_cur_sample := sdi_cur_sample s \<rparr>" by simp
  then show ?case by blast
next
  case (Cons c cs)
  obtain n where n: "perform c s = s\<lparr> sdi_cur_sample := n \<rparr>"
    using perform_changes_only_cur_sample by blast
  obtain m where "perform_all cs (s\<lparr> sdi_cur_sample := n \<rparr>) = s\<lparr> sdi_cur_sample := n \<rparr>\<lparr> sdi_cur_sample := m \<rparr>"
    using Cons.IH by blast
  then have "perform_all (c # cs) s = s\<lparr> sdi_cur_sample := m \<rparr>"
    using n by simp
  then show ?case by blast
qed

lemma calls_left_step:
  assumes "0 < k" "c \<le> E"
  shows "calls_left E k c = Suc (calls_left E k (c + k))"
proof (cases "c + k \<le> E")
  case True
  have "(E - c) div k = (E - (c + k)) div k + 1"
  proof -
    have "E - c = (E - (c + k)) + 1 * k" by simp
    then show ?thesis using assms(1) by (metis div_add_self2 less_irrefl mult_1)
  qed
  moreover have "0 \<le> (E - (c + k)) div k" using True assms(1) by (simp add: pos_imp_zdiv_nonneg_iff)
  ultimately show ?thesis using True assms by (simp add: calls_left_def nat_add_distrib)
next
  case False
  then have "(E - c) div k = 0" using assms by (simp add: div_pos_pos_trivial)
  then show ?thesis using False assms by (simp add: calls_left_def)
qed

lemma next_calls_cur_sample:
  assumes "sdi_epoch_size s = VInt E" and "0 < sdi_batch_size s * sdi_num_gpus s"
  shows "perform_all (replicate m Next) s =
           s\<lparr> sdi_cur_sample := sdi_cur_sample s
                 + sdi_batch_size s * sdi_num_gpus s * int (min m (calls_left E (sdi_batch_size s * sdi_num_gpus s) (sdi_cur_sample s))) \<rparr>"
  using assms
proof (induction m arbitrary: s)
  case 0
  then show ?case by simp
next
  case (Suc m)
  let ?k = "sdi_batch_size s * sdi_num_gpus s"
  show ?case
  proof (cases "sdi_cur_sample s \<le> E")
    case True
    let ?s = "s\<lparr> sdi_cur_sample := sdi_cur_sample s + ?k \<rparr>"
    have step: "perform Next s = ?s" using True Suc.prems by (simp add: sdi_next_def)
    have "perform_all (replicate m Next) ?s =
            ?s\<lparr> sdi_cur_sample := sdi_cur_sample ?s + ?k * int (min m (calls_left E ?k (sdi_cur_sample ?s))) \<rparr>"
      using Suc.IH[of ?s] Suc.prems by simp
    moreover have "calls_left E ?k (sdi_cur_sample s) = Suc (calls_left E ?k (sdi_cur_sample s + ?k))"
      using calls_left_step[OF Suc.prems(2) True] .
    ultimately show ?thesis using step by (simp add: algebra_simps)
  next
    case False
    have step: "perform Next s = s" using False Suc.prems by (simp add: sdi_next_def)
    have "perform_all (replicate m Next) s =
            s\<lparr> sdi_cur_sample := sdi_cur_sample s + ?k * int (min m (calls_left E ?k (sdi_cur_sample s))) \<rparr>"
      using Suc.IH[of s] Suc.prems by simp
    then show ?thesis using step False by (simp add: calls_left_def)
  qed
qed

lemma nth_next_from_start:
  assumes "sdi_epoch_size s = VInt E" and "0 < sdi_batch_size s * sdi_num_gpus s"
    and "sdi_cur_sample s = 0" and "0 \<le> E" and "0 < n"
  shows "nth_next n s =
           (if n \<le> nat (E div (sdi_batch_size s * sdi_num_gpus s)) + 1 then Inr (batches s)
            else Inl StopIteration)"
proof -
  let ?k = "sdi_batch_size s * sdi_num_gpus s"
  let ?q = "nat (E div ?k)"
  have cl: "calls_left E ?k 0 = ?q + 1" using assms by (simp add: calls_left_def)
  have st: "perform_all (replicate (n - 1) Next) s = s\<lparr> sdi_cur_sample := ?k * int (min (n - 1) (?q + 1)) \<rparr>"
    using next_calls_cur_sample[OF assms(1,2), of "n - 1"] assms(3) cl by simp
  have q0: "0 \<le> E div ?k" using assms by (simp add: pos_imp_zdiv_nonneg_iff)
  show ?thesis
  proof (cases "n \<le> ?q + 1")
    case True
    then have "min (n - 1) (?q + 1) = n - 1" by simp
    moreover have "?k * int (n - 1) \<le> E"
    proof -
      have "int (n - 1) \<le> E div ?k" using True q0 by linarith
      then have "?k * int (n - 1) \<le> ?k * (E div ?k)" using assms(2) by (simp add: mult_left_mono)
      also have "\<dots> \<le> E"
      proof -
        have "E = ?k * (E div ?k) + E mod ?k" by simp
        moreover have "0 \<le> E mod ?k" using assms(2) by simp
        ultimately show ?thesis by linarith
      qed
      finally show ?thesis .
    qed
    ultimately show ?thesis using st True assms(1) by (simp add: nth_next_def sdi_next_def batches_def)
  next
    case False
    then have "min (n - 1) (?q + 1) = ?q + 1" by simp
    moreover have "E < ?k * int (?q + 1)"
    proof -
      have "E = ?k * (E div ?k) + E mod ?k" by simp
      moreover have "E mod ?k < ?k" using assms(2) by simp
      ultimately have "E < ?k * (E div ?k) + ?k" by linarith
      then show ?thesis using q0 by (simp add: algebra_simps)
    qed
    ultimately show ?thesis using st False assms(1) by (simp add: nth_next_def sdi_next_def)
  qed
qed

text \<open>
  C9. Started from a freshly constructed iterator and used through any sequence of
  \<^verbatim>\<open>next()\<close> and \<^verbatim>\<open>reset()\<close> calls, the iterator still holds the per-device data and
  label tensors generated at construction; a successful \<^verbatim>\<open>next()\<close> returns exactly one
  batch per device made of those tensors (the same values, dtype and context every time);
  \<^verbatim>\<open>reset()\<close> gives back the freshly constructed iterator, so that \<^verbatim>\<open>reset()\<close> followed
  by \<^verbatim>\<open>next()\<close> has the outcome of the very first \<^verbatim>\<open>next()\<close>.
\<close>

theorem synthetic_batches_fixed_and_reset_restores:
  assumes init: "SyntheticDataIter_init np num_classes data_shape epoch_size dtype gpus layout = Inr s0"
    and reach: "s = perform_all cs s0"
  shows "sdi_data s = sdi_data s0
       \<and> sdi_label s = sdi_label s0
       \<and> (\<forall>b s'. sdi_next s = (Inr b, s') \<longrightarrow>
             b = map (\<lambda>i. \<lparr> batch_data = [\<lparr> nd_values = random_uniform np (-1) 1 data_shape,
                                                 nd_dtype = dtype, nd_ctx = Gpu i \<rparr>],
                               batch_label = [\<lparr> nd_values = random_randint np 0 num_classes [hd data_shape],
                                                  nd_dtype = VStr ''float32'', nd_ctx = CpuPinned 0 \<rparr>],
                               batch_pad = 0 \<rparr>) gpus
             \<and> b = batches s0)
       \<and> sdi_reset s = s0
       \<and> sdi_next (sdi_reset s) = sdi_next s0"
proof -
  have d: "sdi_data s = sdi_data s0" and l: "sdi_label s = sdi_label s0"
    using reach perform_all_keeps_tensors by blast+
  obtain n where n: "s = s0\<lparr> sdi_cur_sample := n \<rparr>"
    using reach perform_all_changes_only_cur_sample by blast
  have c0: "sdi_cur_sample s0 = 0"
    using init by (auto simp: SyntheticDataIter_init_def Let_def split: list.splits if_splits)
  have r: "sdi_reset s = s0"
    using n c0 by (simp add: sdi_reset_def)
  have b0: "batches s0 =
      map (\<lambda>i. \<lparr> batch_data = [\<lparr> nd_values = random_uniform np (-1) 1 data_shape,
                                     nd_dtype = dtype, nd_ctx = Gpu i \<rparr>],
                   batch_label = [\<lparr> nd_values = random_randint np 0 num_classes [hd data_shape],
                                      nd_dtype = VStr ''float32'', nd_ctx = CpuPinned 0 \<rparr>],
                   batch_pad = 0 \<rparr>) gpus"
    using init
    by (auto simp: SyntheticDataIter_init_def Let_def batches_def zip_map_map
          zip_same_conv_map split: list.splits if_splits)
  have nx: "b = batches s0" if "sdi_next s = (Inr b, s')" for b s'
  proof -
    from that have "b = batches s"
      by (auto simp: sdi_next_def split: sum.splits if_splits)
    then show ?thesis using d l by (simp add: batches_def)
  qed
  show ?thesis using d l r b0 nx by auto
qed

lemma example_iter_init:
  "SyntheticDataIter_init example_numpy 1000 [10, 3, 224, 224] (VInt 100) (VStr ''float16'') [0]
     (VStr ''NCHW'') = Inr example_iter"
  by (simp add: SyntheticDataIter_init_def example_numpy_def example_iter_def)

theorem synthetic_batches_fixed_and_reset_restores_witness:
  "SyntheticDataIter_init example_numpy 1000 [10, 3, 224, 224] (VInt 100) (VStr ''float16'') [0]
     (VStr ''NCHW'') = Inr example_iter
   \<and> sdi_data (perform_all [Next, Next, Reset, Next] example_iter) = sdi_data example_iter
   \<and> sdi_label (perform_all [Next, Next, Reset, Next] example_iter) = sdi_label example_iter
   \<and> fst (sdi_next (perform_all [Next, Next, Reset, Next] example_iter)) =
       Inr [\<lparr> batch_data = [\<lparr> nd_values = 9, nd_dtype = VStr ''float16'', nd_ctx = Gpu 0 \<rparr>],
               batch_label = [\<lparr> nd_values = 7, nd_dtype = VStr ''float32'',
                                 nd_ctx = CpuPinned 0 \<rparr>],
               batch_pad = 0 \<rparr>]
   \<and> sdi_reset (perform_all [Next, Next, Reset, Next] example_iter) = example_iter
   \<and> sdi_next (sdi_reset (perform_all [Next, Next, Reset, Next] example_iter)) =
       sdi_next example_iter"
proof -
  let ?s = "perform_all [Next, Next, Reset, Next] example_iter"
  note t = synthetic_batches_fixed_and_reset_restores [OF example_iter_init refl,
      of "[Next, Next, Reset, Next]"]
  have nx: "sdi_next ?s = (Inr (batches example_iter), snd (sdi_next ?s))"
    by (simp add: sdi_next_def sdi_reset_def example_iter_def batches_def)
  have f: "fst (sdi_next ?s) = Inr (batches example_iter)"
    using nx by (metis fst_conv)
  from t nx have bb: "batches example_iter =
      map (\<lambda>i. \<lparr> batch_data = [\<lparr> nd_values = random_uniform example_numpy (- 1) 1 [10, 3, 224, 224],
                                     nd_dtype = VStr ''float16'', nd_ctx = Gpu i \<rparr>],
                   batch_label = [\<lparr> nd_values = random_randint example_numpy 0 1000 [hd [10, 3, 224, 224]],
                                      nd_dtype = VStr ''float32'', nd_ctx = CpuPinned 0 \<rparr>],
                   batch_pad = 0 \<rparr>) [0]"
    by blast
  have "fst (sdi_next ?s) =
       Inr [\<lparr> batch_data = [\<lparr> nd_values = 9, nd_dtype = VStr ''float16'', nd_ctx = Gpu 0 \<rparr>],
               batch_label = [\<lparr> nd_values = 7, nd_dtype = VStr ''float32'',
                                 nd_ctx = CpuPinned 0 \<rparr>],
               batch_pad = 0 \<rparr>]"
    unfolding f bb by (simp add: example_numpy_def)
  then show ?thesis using t example_iter_init by blast
qed

text \<open>
  C3. With an epoch size of 100, a batch size of 10 and one device,
  \<open>ceil(100 / (10 * 1)) + 1 = 11\<close>; the eleventh \<^verbatim>\<open>next()\<close> call of the freshly
  constructed iterator still returns a batch, and the twelfth is the first to raise
  StopIteration.
\<close>

theorem synthetic_exact_multiple_eleventh_call_returns:
  "SyntheticDataIter_init example_numpy 1000 [10, 3, 224, 224] (VInt 100) (VStr ''float16'') [0]
     (VStr ''NCHW'') = Inr example_iter
   \<and> nth_next 11 example_iter = Inr (batches example_iter)
   \<and> nth_next 12 example_iter = Inl StopIteration
   \<and> filter (\<lambda>n. nth_next n example_iter = Inl StopIteration) [1 ..< 14] = [12, 13]"
proof -
  have a: "nth_next 11 example_iter = Inr (batches example_iter)"
    using nth_next_from_start [of example_iter 100 11] by (simp add: example_iter_def)
  have b: "nth_next 12 example_iter = Inl StopIteration"
    using nth_next_from_start [of example_iter 100 12] by (simp add: example_iter_def)
  have c: "filter (\<lambda>n. nth_next n example_iter = Inl StopIteration) [1 ..< 14] = [12, 13]"
    by code_simp
  show ?thesis using a b c example_iter_init by simp
qed

section \<open>Sharding of the training and validation pipelines\<close>

lemma dali_run_returns:
  "returned (get_rec_pipeline_iter example_env dali_args (Some second_of_two) None (VBool True) False)"
  by code_simp

lemma dali_run_facts:
  "\<not> synthetic_mode dali_args"
  "gpu_list example_env dali_args = Inr [0, 1]"
  "worker_rank example_env dali_args (Some second_of_two) = Inr (1, 2)"
  by code_simp+

text \<open>
  C1 (amended). When \<^verbatim>\<open>get_rec_pipeline_iter\<close> returns DALI iterators for a device list
  without repeated entries, the training pipelines are, in the order of the device list,
  one for each GPU index \<open>g\<close>, built on device \<open>gpus[g]\<close> with
  \<open>shard_id = g + rank * len(gpus)\<close> and \<open>num_shards = nWrk * len(gpus)\<close>; and over the
  ranks below \<open>nWrk\<close> and the GPU indices below \<open>len(gpus)\<close> the shard id computed in
  line 305 is a bijection onto the shard ids below \<open>nWrk * len(gpus)\<close>.
\<close>

theorem train_shards_partition_when_devices_distinct:
  assumes r: "get_rec_pipeline_iter env args kv dali_cpu random_crop prop_args = Inr res"
    and ns: "\<not> synthetic_mode args"
    and gl: "gpu_list env args = Inr gpus"
    and wr: "worker_rank env args kv = Inr (rank, nWrk)"
    and di: "distinct gpus"
  shows "map train_shard (trainpipes_built res) =
           map (\<lambda>g. (gpus ! g, int g + rank * int (length gpus), nWrk * int (length gpus)))
             [0 ..< length gpus]
       \<and> bij_betw (\<lambda>(r, g). shard_id_of gpus (gpus ! g) (int r))
           ({0 ..< nat nWrk} \<times> {0 ..< length gpus}) {0 ..< nWrk * int (length gpus)}"
proof -
  have "map train_shard (trainpipes_built res) =
          map (\<lambda>g. (g, shard_id_of gpus g rank, int (length gpus) * nWrk)) gpus"
    by (rule get_rec_trainpipes [OF r ns gl wr])
  also have "\<dots> = map (\<lambda>g. (g, shard_id_of gpus g rank, int (length gpus) * nWrk))
                      (map (\<lambda>i. gpus ! i) [0 ..< length gpus])"
    by (simp only: map_nth)
  also have "\<dots> = map (\<lambda>g. (gpus ! g, int g + rank * int (length gpus), nWrk * int (length gpus)))
             [0 ..< length gpus]"
    unfolding map_map
  proof (rule map_cong [OF refl])
    fix i assume "i \<in> set [0 ..< length gpus]"
    then have "index gpus (gpus ! i) = i" using di by (simp add: index_nth_distinct)
    then show "((\<lambda>g. (g, shard_id_of gpus g rank, int (length gpus) * nWrk)) \<circ> (\<lambda>i. gpus ! i)) i =
               (gpus ! i, int i + rank * int (length gpus), nWrk * int (length gpus))"
      by (simp add: shard_id_of_def mult.commute)
  qed
  finally show ?thesis using shard_id_bij [OF di] by simp
qed

theorem train_shards_partition_witness:
  "\<not> synthetic_mode dali_args
   \<and> gpu_list example_env dali_args = Inr [0, 1]
   \<and> worker_rank example_env dali_args (Some second_of_two) = Inr (1, 2)
   \<and> distinct [0, 1 :: int]
   \<and> built_train_shards (get_rec_pipeline_iter example_env dali_args (Some second_of_two) None
                           (VBool True) False) = Some [(0, 2, 4), (1, 3, 4)]
   \<and> bij_betw (\<lambda>(r, g). shard_id_of [0, 1] ([0, 1] ! g) (int r))
        ({0 ..< nat 2} \<times> {0 ..< length [0, 1 :: int]}) {0 ..< 2 * int (length [0, 1 :: int])}"
proof -
  from returnedE [OF dali_run_returns] obtain res where
    r: "get_rec_pipeline_iter example_env dali_args (Some second_of_two) None (VBool True) False
          = Inr res" by blast
  have d: "distinct [0, 1 :: int]" by simp
  note t = train_shards_partition_when_devices_distinct
             [OF r dali_run_facts(1) dali_run_facts(2) dali_run_facts(3) d]
  have e: "map (\<lambda>g. ([0, 1 :: int] ! g, int g + 1 * int (length [0, 1 :: int]),
                      2 * int (length [0, 1 :: int]))) [0 ..< length [0, 1 :: int]]
           = [(0, 2, 4), (1, 3, 4)]"
    by code_simp
  have "built_train_shards (get_rec_pipeline_iter example_env dali_args (Some second_of_two) None
                           (VBool True) False) = Some [(0, 2, 4), (1, 3, 4)]"
    using t e by (simp add: r built_train_shards_def)
  then show ?thesis using t d dali_run_facts by blast
qed

text \<open>
  The claim as stated fails for a device list with a repeated entry: with
  \<^verbatim>\<open>gpus = "0,0"\<close> on a single worker, \<^verbatim>\<open>gpus.index(gpu_id)\<close> is 0 for both entries, so
  the pipeline of GPU index 1 gets shard id 0 instead of \<open>1 + 0 * 2 = 1\<close>, the two
  pipelines read the same shard, and shard 1 of 2 is read by none.
\<close>

theorem repeated_device_shares_shard:
  "gpu_list example_env repeated_gpu_args = Inr [0, 0]
   \<and> worker_rank example_env repeated_gpu_args None = Inr (0, 1)
   \<and> built_train_shards (get_rec_pipeline_iter example_env repeated_gpu_args None None
                           (VBool True) False) = Some [(0, 0, 2), (0, 0, 2)]"
  by code_simp

lemma dali_separ_val_run_returns:
  "returned (get_rec_pipeline_iter example_env dali_separ_val_args (Some second_of_two) None
               (VBool True) False)"
  by code_simp

lemma dali_separ_val_run_facts:
  "\<not> synthetic_mode dali_separ_val_args"
  "gpu_list example_env dali_separ_val_args = Inr [0, 1]"
  "separ_val_flag dali_separ_val_args"
  "val_flg dali_separ_val_args"
  by code_simp+

text \<open>
  C7. In separate-validation mode every validation pipeline that
  \<^verbatim>\<open>get_rec_pipeline_iter\<close> builds has \<open>shard_id = 0\<close> and \<open>num_shards = 1\<close>, whatever the
  worker's rank: when validation is enabled there is one such pipeline for each device
  of the list, in order, and none otherwise.
\<close>

theorem separate_validation_reads_whole_set:
  assumes r: "get_rec_pipeline_iter env args kv dali_cpu random_crop prop_args = Inr res"
    and ns: "\<not> synthetic_mode args"
    and gl: "gpu_list env args = Inr gpus"
    and sv: "separ_val_flag args"
  shows "map val_shard (valpipes_built res) =
           (if val_flg args then map (\<lambda>g. (g, 0, 1)) gpus else [])"
proof -
  from get_rec_dali_Inr [OF r ns] obtain rank nWrk where
    wr: "worker_rank env args kv = Inr (rank, nWrk)" by blast
  note v = get_rec_valpipes [OF r ns gl wr]
  show ?thesis
  proof (cases "val_flg args")
    case True
    with v sv obtain vs vsize where
      "val res = Some \<lparr> dci_pipelines = vs, dci_size = vsize,
                          dci_reader_name = reader_of args, dci_fill_last_batch = False \<rparr>"
      and "map val_shard vs = map (\<lambda>g. (g, 0, 1)) gpus"
      by auto
    then show ?thesis using True by (simp add: valpipes_built_def)
  next
    case False
    with v have "val res = None" by simp
    then show ?thesis using False by (simp add: valpipes_built_def)
  qed
qed

theorem separate_validation_reads_whole_set_witness:
  "\<not> synthetic_mode dali_separ_val_args
   \<and> gpu_list example_env dali_separ_val_args = Inr [0, 1]
   \<and> separ_val_flag dali_separ_val_args
   \<and> val_flg dali_separ_val_args
   \<and> built_val_shards (get_rec_pipeline_iter example_env dali_separ_val_args (Some second_of_two)
                         None (VBool True) False) = Some [(0, 0, 1), (1, 0, 1)]"
proof -
  from returnedE [OF dali_separ_val_run_returns] obtain res where
    r: "get_rec_pipeline_iter example_env dali_separ_val_args (Some second_of_two) None
          (VBool True) False = Inr res" by blast
  note t = separate_validation_reads_whole_set
             [OF r dali_separ_val_run_facts(1) dali_separ_val_run_facts(2)
                 dali_separ_val_run_facts(3)]
  have "built_val_shards (get_rec_pipeline_iter example_env dali_separ_val_args
          (Some second_of_two) None (VBool True) False) = Some [(0, 0, 1), (1, 0, 1)]"
    using t dali_separ_val_run_facts(4) by (simp add: r built_val_shards_def)
  then show ?thesis using dali_separ_val_run_facts by blast
qed

lemma separ_val_false_run_returns:
  "returned (get_rec_pipeline_iter example_env separ_val_false_args (Some second_of_two) None
               (VBool True) False)"
  by code_simp

lemma separ_val_false_run_facts:
  "separ_val_false_args ''separ_val'' = Some (VBool False)"
  "\<not> synthetic_mode separ_val_false_args"
  "gpu_list example_env separ_val_false_args = Inr [0, 1]"
  "val_flg separ_val_false_args"
  "reader_of separ_val_false_args = None"
  "reader_name_of separ_val_false_args = ''Reader''"
  by code_simp+

text \<open>
  C8. The presence of an attribute \<^verbatim>\<open>dali_separ_val\<close> or \<^verbatim>\<open>separ_val\<close> is enough,
  whatever its value \<open>v\<close> (\<^verbatim>\<open>False\<close> included): every validation pipeline is built with
  \<open>shard_id = 0\<close> and \<open>num_shards = 1\<close>, and the validation size handed to the iterator is
  the reported epoch size itself, not divided among the workers (or \<open>-1\<close> when a reader
  name is given).
\<close>

theorem separ_val_attribute_presence_suffices:
  assumes pr: "args ''dali_separ_val'' = Some v \<or> args ''separ_val'' = Some v"
    and r: "get_rec_pipeline_iter env args kv dali_cpu random_crop prop_args = Inr res"
    and ns: "\<not> synthetic_mode args"
    and gl: "gpu_list env args = Inr gpus"
    and vf: "val_flg args"
  shows "\<exists>vs. vs \<noteq> []
          \<and> val res = Some \<lparr> dci_pipelines = vs,
                 dci_size = (if reader_of args = None
                             then pipe_epoch_size env (vp_reader (hd vs)) (reader_name_of args)
                             else - 1),
                 dci_reader_name = reader_of args, dci_fill_last_batch = False \<rparr>
          \<and> map val_shard vs = map (\<lambda>g. (g, 0, 1)) gpus"
proof -
  have sv: "separ_val_flag args" using pr by (auto simp: separ_val_flag_def hasattr_def)
  from get_rec_dali_Inr [OF r ns] obtain rank nWrk where
    wr: "worker_rank env args kv = Inr (rank, nWrk)" by blast
  from get_rec_valpipes [OF r ns gl wr] vf sv obtain vs vsize where
    ne: "vs \<noteq> []"
    and vr: "val res = Some \<lparr> dci_pipelines = vs, dci_size = vsize,
                          dci_reader_name = reader_of args, dci_fill_last_batch = False \<rparr>"
    and sh: "map val_shard vs = map (\<lambda>g. (g, 0, 1)) gpus"
    and sz: "if reader_of args = None
                  then val_size_of (separ_val_flag args) rank nWrk
                         (pipe_epoch_size env (vp_reader (hd vs)) (reader_name_of args)) =
                       Inr vsize
                  else vsize = - 1"
    by auto
  have "vsize = (if reader_of args = None
                 then pipe_epoch_size env (vp_reader (hd vs)) (reader_name_of args) else - 1)"
    using sz sv by (auto simp: val_size_of_def split: if_splits)
  then show ?thesis using ne vr sh by blast
qed

theorem separ_val_attribute_presence_suffices_witness:
  "separ_val_false_args ''separ_val'' = Some (VBool False)
   \<and> \<not> synthetic_mode separ_val_false_args
   \<and> gpu_list example_env separ_val_false_args = Inr [0, 1]
   \<and> val_flg separ_val_false_args
   \<and> built_val_shards (get_rec_pipeline_iter example_env separ_val_false_args (Some second_of_two)
                         None (VBool True) False) = Some [(0, 0, 1), (1, 0, 1)]
   \<and> val_size_built (get_rec_pipeline_iter example_env separ_val_false_args (Some second_of_two)
                         None (VBool True) False) = Some 5"
proof -
  from returnedE [OF separ_val_false_run_returns] obtain res where
    r: "get_rec_pipeline_iter example_env separ_val_false_args (Some second_of_two) None
          (VBool True) False = Inr res" by blast
  have pr: "separ_val_false_args ''dali_separ_val'' = Some (VBool False)
            \<or> separ_val_false_args ''separ_val'' = Some (VBool False)"
    using separ_val_false_run_facts(1) by simp
  from separ_val_attribute_presence_suffices
         [OF pr r separ_val_false_run_facts(2) separ_val_false_run_facts(3)
             separ_val_false_run_facts(4)]
  obtain vs where
    ne: "vs \<noteq> []"
    and vr: "val res = Some \<lparr> dci_pipelines = vs,
                 dci_size = (if reader_of separ_val_false_args = None
                             then pipe_epoch_size example_env (vp_reader (hd vs))
                                    (reader_name_of separ_val_false_args)
                             else - 1),
                 dci_reader_name = reader_of separ_val_false_args,
                 dci_fill_last_batch = False \<rparr>"
    and sh: "map val_shard vs = map (\<lambda>g. (g, 0, 1)) [0, 1]"
    by blast
  have a: "built_val_shards (get_rec_pipeline_iter example_env separ_val_false_args
             (Some second_of_two) None (VBool True) False) = Some [(0, 0, 1), (1, 0, 1)]"
    using vr sh by (simp add: r built_val_shards_def valpipes_built_def)
  have b: "val_size_built (get_rec_pipeline_iter example_env separ_val_false_args
             (Some second_of_two) None (VBool True) False) = Some 5"
    by code_simp
  show ?thesis using a b separ_val_false_run_facts by blast
qed

section \<open>The warning about the number of examples\<close>

lemma few_examples_run_returns:
  "returned (get_rec_pipeline_iter example_env few_examples_args None None (VBool True) False)"
  by code_simp

lemma few_examples_run_facts:
  "\<not> synthetic_mode few_examples_args"
  "few_examples_args(''num_examples'' \<mapsto> VInt 2000) = many_examples_args"
  by (code_simp, simp add: few_examples_args_def many_examples_args_def fun_eq_iff)

text \<open>
  C6 (amended). When \<^verbatim>\<open>get_rec_pipeline_iter\<close> returns DALI iterators, it has emitted the
  warning exactly when the requested number of examples is less than the epoch size the
  first training pipeline reports (and no other warning); and the construction returns
  for every requested integer number of examples, whether the warning is emitted or not.
\<close>

theorem examples_warning_when_fewer_requested:
  assumes r: "get_rec_pipeline_iter env args kv dali_cpu random_crop prop_args = Inr res"
    and ns: "\<not> synthetic_mode args"
  shows "\<exists>num n. args ''num_examples'' = Some num \<and> int_operand num = Inr n
           \<and> trainpipes_built res \<noteq> []
           \<and> warnings res =
               (if n < pipe_epoch_size env (tp_reader (hd (trainpipes_built res)))
                         (reader_name_of args)
                then [ExamplesWarning num
                        (pipe_epoch_size env (tp_reader (hd (trainpipes_built res)))
                           (reader_name_of args))]
                else [])
           \<and> (\<forall>m. returned (get_rec_pipeline_iter env (args(''num_examples'' \<mapsto> VInt m)) kv
                                dali_cpu random_crop prop_args))"
proof -
  from get_rec_dali_Inr [OF r ns] obtain tps num n tsize where
    f: "tps \<noteq> []" "args ''num_examples'' = Some num" "int_operand num = Inr n"
      "train res = DALIIter \<lparr> dci_pipelines = tps, dci_size = tsize,
                dci_reader_name = reader_of args, dci_fill_last_batch = True \<rparr>"
      "warnings res =
               (if n < pipe_epoch_size env (tp_reader (hd tps)) (reader_name_of args)
                then [ExamplesWarning num
                        (pipe_epoch_size env (tp_reader (hd tps)) (reader_name_of args))]
                else [])"
    by blast
  have tb: "trainpipes_built res = tps" using f(4) by (simp add: trainpipes_built_def)
  from get_rec_pipeline_iter_dali [OF r ns] obtain ts gp bs where
    g: "gpus_of env args = Inr gp"
    and d: "dali_iterators env args kv dali_cpu random_crop prop_args bs ts gp = Inr res"
    and t: "target_shape_of args = Inr ts" and b: "getattr args ''batch_size'' = Inr bs"
    using r ns by (auto simp: get_rec_pipeline_iter_def bnd_Inr_iff)
  have "returned (get_rec_pipeline_iter env (args(''num_examples'' \<mapsto> VInt m)) kv
                                dali_cpu random_crop prop_args)" for m
    using dali_iterators_num_examples_returns [OF d, of m] ns
    by (simp add: get_rec_pipeline_iter_def flags_num_examples g t b)
  then show ?thesis using f tb by blast
qed

theorem examples_warning_when_fewer_requested_witness:
  "\<not> synthetic_mode few_examples_args
   \<and> returned (get_rec_pipeline_iter example_env few_examples_args None None (VBool True) False)
   \<and> warnings_emitted (get_rec_pipeline_iter example_env few_examples_args None None
                         (VBool True) False) = Some [ExamplesWarning (VInt 500) 1000]
   \<and> returned (get_rec_pipeline_iter example_env many_examples_args None None (VBool True) False)
   \<and> warnings_emitted (get_rec_pipeline_iter example_env many_examples_args None None
                         (VBool True) False) = Some []"
proof -
  from returnedE [OF few_examples_run_returns] obtain res where
    r: "get_rec_pipeline_iter example_env few_examples_args None None (VBool True) False
          = Inr res" by blast
  from examples_warning_when_fewer_requested [OF r few_examples_run_facts(1)]
  have "returned (get_rec_pipeline_iter example_env
                    (few_examples_args(''num_examples'' \<mapsto> VInt 2000)) None None
                    (VBool True) False)"
    by blast
  then have a: "returned (get_rec_pipeline_iter example_env many_examples_args None None
                            (VBool True) False)"
    by (simp only: few_examples_run_facts(2))
  have b: "warnings_emitted (get_rec_pipeline_iter example_env few_examples_args None None
                         (VBool True) False) = Some [ExamplesWarning (VInt 500) 1000]"
    by code_simp
  have c: "warnings_emitted (get_rec_pipeline_iter example_env many_examples_args None None
                         (VBool True) False) = Some []"
    by code_simp
  show ?thesis using a b c few_examples_run_returns few_examples_run_facts(1) by blast
qed

text \<open>
  The claim as stated fails in both directions: 2000 requested examples exceed the
  reported 1000 and no warning is emitted; 500 requested examples do not, and the
  warning is emitted.
\<close>

theorem no_warning_when_more_requested:
  "many_examples_args ''num_examples'' = Some (VInt 2000)
   \<and> warnings_emitted (get_rec_pipeline_iter example_env many_examples_args None None
                         (VBool True) False) = Some []
   \<and> few_examples_args ''num_examples'' = Some (VInt 500)
   \<and> warnings_emitted (get_rec_pipeline_iter example_env few_examples_args None None
                         (VBool True) False) = Some [ExamplesWarning (VInt 500) 1000]"
  by code_simp

section \<open>The validation size of a worker\<close>

lemma val_size_of_every_rank_rounds_up:
  assumes "0 < nWrk" and "nWrk \<le> V" and "rank < nWrk"
  shows "val_size_of False rank nWrk V = Inr (V div nWrk + 1)"
  using assms by (simp add: val_size_of_def floordiv_def)

text \<open>
  C2. With two workers, no reader name, no separate validation and a validation set
  reporting \<open>V = 5\<close> examples, both ranks are handed the validation size 3: line 363
  compares the rank with the epoch size itself, not with \<open>V mod nWrk\<close>, so rank 1 also
  receives the extra example and the sizes add up to 6 instead of 5.
\<close>

theorem validation_sizes_overshoot:
  "pipe_epoch_size example_env
     (ImageReader_init (VStr ''val.rec'') (VStr ''val.idx'') 0 4 False (VStr ''Reader'')) ''Reader'' = 5
   \<and> val_size_built (get_rec_pipeline_iter example_env dali_args (Some (worker_of_two 0)) None
                       (VBool True) False) = Some 3
   \<and> val_size_built (get_rec_pipeline_iter example_env dali_args (Some (worker_of_two 1)) None
                       (VBool True) False) = Some 3"
  by code_simp

section \<open>The pixel statistics of the normalisation\<close>

lemma get_attribute_present:
  "hasattr ns n \<Longrightarrow> get_attribute f (Some ns) n d = Inr (VBool True)"
  by (simp add: get_attribute_def)

lemma get_attribute_absent:
  "\<not> hasattr ns n \<Longrightarrow> get_attribute f (Some ns) n d = Inr d"
  "get_attribute f None n d = Inr d"
  by (simp_all add: get_attribute_def)

text \<open>
  C4. With \<^verbatim>\<open>rgb_mean = "1.0,2.0,3.0"\<close> and \<^verbatim>\<open>rgb_std = "3.0,2.0,1.0"\<close> among the arguments
  and the arguments passed on (\<^verbatim>\<open>prop_args=True\<close>), \<^verbatim>\<open>get_attribute\<close> returns \<^verbatim>\<open>True\<close> for
  both, and that is the mean and the std every training pipeline's
  \<^verbatim>\<open>CropMirrorNormalize\<close> is built with, not the lists of floats parsed from the
  strings. Without the two attributes the ImageNet defaults are passed.
\<close>

theorem rgb_attributes_give_true:
  "rgb_args ''rgb_mean'' = Some (VStr ''1.0,2.0,3.0'')
   \<and> rgb_args ''rgb_std'' = Some (VStr ''3.0,2.0,1.0'')
   \<and> get_attribute (float_of_str example_env) (Some rgb_args) ''rgb_mean'' (VFloats mean_pixel)
       = Inr (VBool True)
   \<and> get_attribute (float_of_str example_env) (Some rgb_args) ''rgb_std'' (VFloats std_pixel)
       = Inr (VBool True)
   \<and> built_pixel_stats (get_rec_pipeline_iter example_env rgb_args None None (VBool True) True)
       = Some [(VBool True, VBool True), (VBool True, VBool True)]
   \<and> built_pixel_stats (get_rec_pipeline_iter example_env dali_args None None (VBool True) True)
       = Some [(VFloats mean_pixel, VFloats std_pixel), (VFloats mean_pixel, VFloats std_pixel)]"
  by code_simp

section \<open>The synthetic run\<close>

text \<open>
  C10. For the synthetic configuration with 100 examples, a batch size of 10 and one
  device, \<^verbatim>\<open>get_rec_pipeline_iter\<close> returns the synthetic iterator with no validation
  iterator; each of the first eleven \<^verbatim>\<open>next()\<close> calls returns a batch, and the twelfth
  raises StopIteration.
\<close>

theorem synthetic_run_yields_eleven_batches:
  "get_rec_pipeline_iter example_env synthetic_args None None (VBool True) False =
     Inr \<lparr> train = SyntheticIter example_iter, val = None, warnings = [],
           stderr = [''Using synthetic data''] \<rparr>
   \<and> map (\<lambda>n. nth_next n example_iter = Inr (batches example_iter)) [1 ..< 12] = replicate 11 True
   \<and> nth_next 12 example_iter = Inl StopIteration"
  by code_simp

section \<open>The merged argument list\<close>
























text \<open>
  A caller list that names an option twice is refused: the second registration of
  \<^verbatim>\<open>--num_examples\<close> raises ArgumentError, and no parser is returned.
\<close>

lemma repeated_caller_option_raises:
  "(case add_dali_pipeline_args default_parser (Some repeated_caller_args) of
      Inl e \<Rightarrow> e = ArgumentError
    | Inr p \<Rightarrow> False)"
  by code_simp

end
